theory Spec2Isabelle
  imports Complex_Main "HOL-Library.Sublist"
begin

section \<open>KiCAD 3D-model synchronisation (kicad-model-sync-refactored.py)\<close>

text \<open>
  The script walks a directory, loads every \<^verbatim>\<open>.kicad_mod\<close> footprint with the kiutils
  library, makes the project-local 3D-model entry mirror the third-party one
  (\<^verbatim>\<open>sync_models\<close>), and writes the footprint back unless \<^verbatim>\<open>--dry-run\<close> is given.

  Modelling decisions:
  \<^item> \<^verbatim>\<open>Coordinate\<close> objects live in an explicit store: a model's \<^verbatim>\<open>pos\<close>, \<^verbatim>\<open>scale\<close>
    and \<^verbatim>\<open>rotate\<close> fields hold addresses, \<^verbatim>\<open>Coordinate(X=..., Y=..., Z=...)\<close> allocates
    the next free address. So a copied vector and a shared reference are different things.
  \<^item> Every entry of \<^verbatim>\<open>footprint.models\<close> is an object of its own (the parser builds one
    per \<^verbatim>\<open>(model ...)\<close> form), so a \<^verbatim>\<open>Model\<close> object is identified with its index in
    the list and an assignment to one of its fields is a list update at that index.
  \<^item> The numbers read from the document (the components of a vector, the opacity) are
    \<^typ>\<open>real\<close>s; \<^verbatim>\<open>!=\<close> on them and on coordinates (a dataclass: component-wise
    comparison) is HOL inequality. Not-a-number and signed zeros are outside the model.
  \<^item> kiutils (\<^verbatim>\<open>from_file\<close>, \<^verbatim>\<open>to_file\<close>) and \<^verbatim>\<open>os.walk\<close> are not part of the
    repository: they are parameters of the functions that call them.
  \<^item> \<^verbatim>\<open>os.path\<close> is \<^verbatim>\<open>posixpath\<close> (the separator is \<^verbatim>\<open>/\<close>).
  \<^item> \<^verbatim>\<open>print\<close> is not modelled, except that \<^verbatim>\<open>main\<close> returns the two numbers of its
    summary.
\<close>

subsection \<open>Strings\<close>

text \<open>\<^verbatim>\<open>t in s\<close> on Python strings: \<open>t\<close> occurs in \<open>s\<close> as a contiguous block.\<close>

fun contains :: "string \<Rightarrow> string \<Rightarrow> bool" where
  "contains [] t = (t = [])"
| "contains (c # cs) t = (prefix t (c # cs) \<or> contains cs t)"

text \<open>\<^verbatim>\<open>posixpath.basename(p)\<close>: \<^verbatim>\<open>p[p.rfind('/') + 1:]\<close>.\<close>

definition basename :: "string \<Rightarrow> string" where
  "basename p = rev (takeWhile (\<lambda>c. c \<noteq> CHR ''/'') (rev p))"

text \<open>\<^verbatim>\<open>posixpath.join(a, b)\<close> for two components.\<close>

definition path_join :: "string \<Rightarrow> string \<Rightarrow> string" where
  "path_join a b =
     (if prefix ''/'' b then b
      else if a = [] \<or> suffix ''/'' a then a @ b
      else a @ ''/'' @ b)"

definition KICAD_3RD_PARTY :: string where
  "KICAD_3RD_PARTY = ''${KICAD_3RD_PARTY}''"

definition KIPRJMOD :: string where
  "KIPRJMOD = ''${KIPRJMOD}''"

subsection \<open>Data model\<close>

type_synonym addr = nat

record Coordinate =
  X :: real
  Y :: real
  Z :: real

text \<open>
  The fields of kiutils' \<^verbatim>\<open>Model\<close> that the script reads or writes; \<^verbatim>\<open>rotate\<close> is
  \<open>rotate_m\<close> here.
\<close>

record Model =
  path :: string
  pos :: addr
  scale :: addr
  rotate_m :: addr
  hide :: bool
  opacity :: real

record Footprint =
  models :: "Model list"

text \<open>The store of \<^verbatim>\<open>Coordinate\<close> objects: addresses below \<open>next_addr\<close> are allocated.\<close>

record heap =
  coords :: "addr \<Rightarrow> Coordinate"
  next_addr :: addr

definition new_Coordinate :: "real \<Rightarrow> real \<Rightarrow> real \<Rightarrow> heap \<Rightarrow> addr \<times> heap" where
  "new_Coordinate x y z h =
     (next_addr h,
      h\<lparr>coords := (coords h)(next_addr h := \<lparr>X = x, Y = y, Z = z\<rparr>),
        next_addr := Suc (next_addr h)\<rparr>)"

text \<open>\<^verbatim>\<open>Coordinate(X=c.X, Y=c.Y, Z=c.Z)\<close> for the coordinate \<open>c\<close> at address \<open>a\<close>.\<close>

definition copy_Coordinate :: "addr \<Rightarrow> heap \<Rightarrow> addr \<times> heap" where
  "copy_Coordinate a h =
     new_Coordinate (X (coords h a)) (Y (coords h a)) (Z (coords h a)) h"

text \<open>Every reference held by a model of the footprint points to an allocated object.\<close>

definition wf_heap :: "heap \<Rightarrow> Footprint \<Rightarrow> bool" where
  "wf_heap h footprint =
     list_all (\<lambda>m. pos m < next_addr h \<and> scale m < next_addr h \<and> rotate_m m < next_addr h)
       (models footprint)"

text \<open>
  The store \<open>h'\<close> extends \<open>h\<close>: it has allocated no fewer addresses and the objects
  allocated in \<open>h\<close> hold what they held.
\<close>

definition frame :: "heap \<Rightarrow> heap \<Rightarrow> bool" where
  "frame h h' \<longleftrightarrow>
     next_addr h \<le> next_addr h' \<and> (\<forall>a \<in> {..<next_addr h}. coords h' a = coords h a)"

subsection \<open>\<^verbatim>\<open>sync_models\<close>\<close>

text \<open>
  The loop of lines 33 to 37. The two variables hold the index of the model they are
  bound to; each iteration may rebind one of them:
  \<^verbatim>\<open>
    for model in footprint.models:
        if '${KICAD_3RD_PARTY}' in model.path:
            third_party_model = model
        elif '${KIPRJMOD}' in model.path:
            project_model = model
  \<close>
\<close>

definition find_step :: "nat option \<times> nat option \<Rightarrow> nat \<times> Model \<Rightarrow> nat option \<times> nat option" where
  "find_step = (\<lambda>(third_party_model, project_model) (i, model).
     if contains (path model) KICAD_3RD_PARTY then (Some i, project_model)
     else if contains (path model) KIPRJMOD then (third_party_model, Some i)
     else (third_party_model, project_model))"

definition find_models :: "Model list \<Rightarrow> nat option \<times> nat option" where
  "find_models ms = foldl find_step (None, None) (enumerate 0 ms)"

text \<open>
  Lines 44 to 65: the project model built from the third-party model \<open>tp\<close>. The default
  vectors that \<^verbatim>\<open>Model()\<close> comes with are replaced at once and are not allocated here.
\<close>

definition create_project_model :: "heap \<Rightarrow> Model \<Rightarrow> heap \<times> Model" where
  "create_project_model h tp =
     (let model_filename = basename (path tp);
          new_path = ''${KIPRJMOD}/3d-models/'' @ model_filename;
          (p, h1) = copy_Coordinate (pos tp) h;
          (s, h2) = copy_Coordinate (scale tp) h1;
          (r, h3) = copy_Coordinate (rotate_m tp) h2
      in (h3, \<lparr>path = new_path, pos = p, scale = s, rotate_m = r,
               hide = hide tp, opacity = opacity tp\<rparr>))"

text \<open>
  Lines 69 to 103, one function for each \<^verbatim>\<open>if\<close>: the state is the flag
  \<^verbatim>\<open>modified\<close>, the store and the project model.
\<close>

definition sync_pos :: "Model \<Rightarrow> bool \<times> heap \<times> Model \<Rightarrow> bool \<times> heap \<times> Model" where
  "sync_pos tp = (\<lambda>(modified, h, pm).
     if coords h (pos pm) \<noteq> coords h (pos tp)
     then (case copy_Coordinate (pos tp) h of (a, h') \<Rightarrow> (True, h', pm\<lparr>pos := a\<rparr>))
     else (modified, h, pm))"

definition sync_scale :: "Model \<Rightarrow> bool \<times> heap \<times> Model \<Rightarrow> bool \<times> heap \<times> Model" where
  "sync_scale tp = (\<lambda>(modified, h, pm).
     if coords h (scale pm) \<noteq> coords h (scale tp)
     then (case copy_Coordinate (scale tp) h of (a, h') \<Rightarrow> (True, h', pm\<lparr>scale := a\<rparr>))
     else (modified, h, pm))"

definition sync_rotate :: "Model \<Rightarrow> bool \<times> heap \<times> Model \<Rightarrow> bool \<times> heap \<times> Model" where
  "sync_rotate tp = (\<lambda>(modified, h, pm).
     if coords h (rotate_m pm) \<noteq> coords h (rotate_m tp)
     then (case copy_Coordinate (rotate_m tp) h of (a, h') \<Rightarrow> (True, h', pm\<lparr>rotate_m := a\<rparr>))
     else (modified, h, pm))"

definition sync_hide :: "Model \<Rightarrow> bool \<times> heap \<times> Model \<Rightarrow> bool \<times> heap \<times> Model" where
  "sync_hide tp = (\<lambda>(modified, h, pm).
     if hide pm \<noteq> hide tp then (True, h, pm\<lparr>hide := hide tp\<rparr>) else (modified, h, pm))"

definition sync_opacity :: "Model \<Rightarrow> bool \<times> heap \<times> Model \<Rightarrow> bool \<times> heap \<times> Model" where
  "sync_opacity tp = (\<lambda>(modified, h, pm).
     if opacity pm \<noteq> opacity tp then (True, h, pm\<lparr>opacity := opacity tp\<rparr>)
     else (modified, h, pm))"

definition update_project_model :: "heap \<Rightarrow> Model \<Rightarrow> Model \<Rightarrow> bool \<times> heap \<times> Model" where
  "update_project_model h tp pm =
     sync_opacity tp (sync_hide tp (sync_rotate tp (sync_scale tp (sync_pos tp (False, h, pm)))))"

definition sync_models :: "heap \<Rightarrow> Footprint \<Rightarrow> bool \<times> heap \<times> Footprint" where
  "sync_models h footprint =
     (if models footprint = [] then (False, h, footprint)
      else case find_models (models footprint) of
        (None, _) \<Rightarrow> (False, h, footprint)
      | (Some i, None) \<Rightarrow>
          (case create_project_model h (models footprint ! i) of
             (h', project_model) \<Rightarrow>
               (True, h', footprint\<lparr>models := models footprint @ [project_model]\<rparr>))
      | (Some i, Some j) \<Rightarrow>
          (case update_project_model h (models footprint ! i) (models footprint ! j) of
             (modified, h', project_model) \<Rightarrow>
               (modified, h', footprint\<lparr>models := (models footprint)[j := project_model]\<rparr>)))"

subsection \<open>The file pipeline\<close>

text \<open>
  \<^verbatim>\<open>from_file\<close> reads a document of the file system \<open>fs\<close> and returns the footprint with
  its store, or raises. \<^verbatim>\<open>to_file\<close> returns the exception it raised, if any, and the
  file system it left. \<^verbatim>\<open>except Exception\<close> turns either exception into \<^verbatim>\<open>False\<close>.
\<close>

definition process_footprint_file ::
  "('fs \<Rightarrow> string \<Rightarrow> 'e + heap \<times> Footprint) \<Rightarrow>
   ('fs \<Rightarrow> heap \<times> Footprint \<Rightarrow> string \<Rightarrow> 'e option \<times> 'fs) \<Rightarrow>
   'fs \<Rightarrow> string \<Rightarrow> bool \<Rightarrow> bool \<times> 'fs" where
  "process_footprint_file from_file to_file fs filepath dry_run =
     (case from_file fs filepath of
        Inl e \<Rightarrow> (False, fs)
      | Inr (h, footprint) \<Rightarrow>
          (case sync_models h footprint of
             (was_modified, h', footprint') \<Rightarrow>
               if was_modified then
                 (if \<not> dry_run then
                    (case to_file fs (h', footprint') filepath of
                       (Some e, fs') \<Rightarrow> (False, fs')
                     | (None, fs') \<Rightarrow> (True, fs'))
                  else (True, fs))
               else (False, fs)))"

text \<open>
  \<^verbatim>\<open>find_footprint_files\<close>: \<open>walk\<close> is \<^verbatim>\<open>os.walk\<close>, a list of
  \<^verbatim>\<open>(root, dirs, files)\<close>.
\<close>

definition find_footprint_files ::
  "('fs \<Rightarrow> string \<Rightarrow> (string \<times> string list \<times> string list) list) \<Rightarrow>
   'fs \<Rightarrow> string \<Rightarrow> string list" where
  "find_footprint_files walk fs directory =
     concat (map (\<lambda>(root, _, files).
                    map (path_join root) (filter (suffix ''.kicad_mod'') files))
                 (walk fs directory))"

text \<open>The loop of lines 175 to 178, from the counter \<open>modified_files\<close>.\<close>

fun process_files ::
  "('fs \<Rightarrow> string \<Rightarrow> 'e + heap \<times> Footprint) \<Rightarrow>
   ('fs \<Rightarrow> heap \<times> Footprint \<Rightarrow> string \<Rightarrow> 'e option \<times> 'fs) \<Rightarrow>
   'fs \<Rightarrow> string list \<Rightarrow> bool \<Rightarrow> nat \<Rightarrow> nat \<times> 'fs" where
  "process_files from_file to_file fs [] dry_run modified_files = (modified_files, fs)"
| "process_files from_file to_file fs (filepath # rest) dry_run modified_files =
     (case process_footprint_file from_file to_file fs filepath dry_run of
        (True, fs') \<Rightarrow> process_files from_file to_file fs' rest dry_run (modified_files + 1)
      | (False, fs') \<Rightarrow> process_files from_file to_file fs' rest dry_run modified_files)"

text \<open>
  What a run leaves: the exit status, the two numbers of the summary (none when the
  summary is not printed) and the file system.
\<close>

record 'fs run =
  exit_status :: int
  summary :: "(nat \<times> nat) option"
  files :: 'fs

definition main ::
  "('fs \<Rightarrow> string \<Rightarrow> (string \<times> string list \<times> string list) list) \<Rightarrow>
   ('fs \<Rightarrow> string \<Rightarrow> 'e + heap \<times> Footprint) \<Rightarrow>
   ('fs \<Rightarrow> heap \<times> Footprint \<Rightarrow> string \<Rightarrow> 'e option \<times> 'fs) \<Rightarrow>
   string option \<Rightarrow> string \<Rightarrow> bool \<Rightarrow> 'fs \<Rightarrow> 'fs run" where
  "main walk from_file to_file github_workspace directory dry_run fs =
     (let base_dir = (case github_workspace of Some d \<Rightarrow> d | None \<Rightarrow> directory);
          footprint_files = find_footprint_files walk fs base_dir
      in if footprint_files = [] then \<lparr>exit_status = 0, summary = None, files = fs\<rparr>
         else case process_files from_file to_file fs footprint_files dry_run 0 of
           (modified_files, fs') \<Rightarrow>
             \<lparr>exit_status = (if modified_files > 0 \<and> \<not> dry_run then 1 else 0),
              summary = Some (length footprint_files, modified_files),
              files = fs'\<rparr>)"

subsection \<open>The matcher as the specification words it\<close>

text \<open>
  Section 4.1 of the specification: the first record whose path contains the third-party
  token is bound to \<open>thirdParty\<close>, the first whose path contains the project token to
  \<open>projectLocal\<close>. This definition follows those words, not the source.
\<close>

fun first_index :: "('a \<Rightarrow> bool) \<Rightarrow> 'a list \<Rightarrow> nat option" where
  "first_index P [] = None"
| "first_index P (x # xs) = (if P x then Some 0 else map_option Suc (first_index P xs))"

definition classify_spec :: "Model list \<Rightarrow> nat option \<times> nat option" where
  "classify_spec ms =
     (first_index (\<lambda>m. contains (path m) KICAD_3RD_PARTY) ms,
      first_index (\<lambda>m. contains (path m) KIPRJMOD) ms)"

subsection \<open>Example inputs\<close>

text \<open>
  The store of the examples: the vectors (1,2,3), (1,1,1), (0,0,0) and (5,0,0) at the
  addresses 0 to 3.
\<close>

definition example_heap :: heap where
  "example_heap =
     \<lparr>coords = (\<lambda>_. \<lparr>X = 0, Y = 0, Z = 0\<rparr>)
        (0 := \<lparr>X = 1, Y = 2, Z = 3\<rparr>, 1 := \<lparr>X = 1, Y = 1, Z = 1\<rparr>, 3 := \<lparr>X = 5, Y = 0, Z = 0\<rparr>),
      next_addr = 4\<rparr>"

text \<open>The third-party record of the specification's create scenario (section 8).\<close>

definition part_third_party :: Model where
  "part_third_party =
     \<lparr>path = ''${KICAD_3RD_PARTY}/lib/part.step'', pos = 0, scale = 1, rotate_m = 2,
      hide = False, opacity = 1\<rparr>"

text \<open>Two records of the update scenario: positions (5,0,0) and (0,0,0), the rest equal.\<close>

definition moved_third_party :: Model where
  "moved_third_party =
     \<lparr>path = ''${KICAD_3RD_PARTY}/lib/part.step'', pos = 3, scale = 1, rotate_m = 2,
      hide = False, opacity = 1\<rparr>"

definition part_project :: Model where
  "part_project =
     \<lparr>path = ''${KIPRJMOD}/3d-models/part.step'', pos = 2, scale = 1, rotate_m = 2,
      hide = False, opacity = 1\<rparr>"

text \<open>A second third-party record, and one whose path holds both tokens.\<close>

definition other_third_party :: Model where
  "other_third_party =
     \<lparr>path = ''${KICAD_3RD_PARTY}/lib/other.step'', pos = 3, scale = 1, rotate_m = 2,
      hide = True, opacity = 1\<rparr>"

definition both_tokens :: Model where
  "both_tokens =
     \<lparr>path = ''${KICAD_3RD_PARTY}/${KIPRJMOD}/part.step'', pos = 0, scale = 1, rotate_m = 2,
      hide = False, opacity = 1\<rparr>"

text \<open>A third-party record whose token is not followed by a separator.\<close>

definition bare_third_party :: Model where
  "bare_third_party =
     \<lparr>path = ''${KICAD_3RD_PARTY}part.step'', pos = 0, scale = 1, rotate_m = 2,
      hide = False, opacity = 1\<rparr>"

text \<open>
  A file system for the examples: a file holds a footprint with its store, or text that
  does not parse. Saving to \<^verbatim>\<open>./locked.kicad_mod\<close> raises and writes nothing.
\<close>

datatype document = Malformed | Document heap Footprint

definition example_from_file :: "(string \<Rightarrow> document) \<Rightarrow> string \<Rightarrow> string + heap \<times> Footprint" where
  "example_from_file fs filepath =
     (case fs filepath of
        Malformed \<Rightarrow> Inl ''parse error''
      | Document h footprint \<Rightarrow> Inr (h, footprint))"

definition example_to_file ::
  "(string \<Rightarrow> document) \<Rightarrow> heap \<times> Footprint \<Rightarrow> string \<Rightarrow> string option \<times> (string \<Rightarrow> document)" where
  "example_to_file fs d filepath =
     (if filepath = ''./locked.kicad_mod'' then (Some ''permission denied'', fs)
      else (None, fs(filepath := Document (fst d) (snd d))))"

definition example_walk ::
  "(string \<Rightarrow> document) \<Rightarrow> string \<Rightarrow> (string \<times> string list \<times> string list) list" where
  "example_walk fs directory =
     [(directory, [], [''bad.kicad_mod'', ''notes.txt'', ''good.kicad_mod''])]"

definition example_fs :: "string \<Rightarrow> document" where
  "example_fs =
     (\<lambda>_. Malformed)
       (''./good.kicad_mod'' := Document example_heap \<lparr>models = [moved_third_party, part_project]\<rparr>,
        ''./locked.kicad_mod'' := Document example_heap \<lparr>models = [part_third_party]\<rparr>)"

text \<open>A save that empties the file and then raises.\<close>

definition truncating_to_file ::
  "(string \<Rightarrow> document) \<Rightarrow> heap \<times> Footprint \<Rightarrow> string \<Rightarrow> string option \<times> (string \<Rightarrow> document)" where
  "truncating_to_file fs d filepath = (Some ''disk full'', fs(filepath := Malformed))"

text \<open>The update scenario after \<^verbatim>\<open>sync_models\<close>.\<close>

definition synced_heap :: heap where
  "synced_heap = \<lparr>coords = (coords example_heap)(4 := \<lparr>X = 5, Y = 0, Z = 0\<rparr>), next_addr = 5\<rparr>"

definition synced_footprint :: Footprint where
  "synced_footprint = \<lparr>models = [moved_third_party, part_project\<lparr>pos := 4\<rparr>]\<rparr>"

section \<open>Properties\<close>

lemmas example_defs = example_heap_def part_third_party_def moved_third_party_def
  part_project_def other_third_party_def both_tokens_def bare_third_party_def
  KICAD_3RD_PARTY_def KIPRJMOD_def

subsection \<open>Strings\<close>

lemma contains_sublist: "contains s t \<longleftrightarrow> sublist t s"
  by (induction s) (auto simp: sublist_Cons_right)

lemma contains_project_prefix: "contains (KIPRJMOD @ s) KIPRJMOD"
  by (simp add: contains_sublist)

text \<open>
  The third-party token has no \<^verbatim>\<open>/\<close> and does not start the fixed prefix, so it occurs in
  a created path only where it occurs in the file name.
\<close>

lemma contains_created_path:
  "contains (''${KIPRJMOD}/3d-models/'' @ s) KICAD_3RD_PARTY = contains s KICAD_3RD_PARTY"
  by (simp add: KICAD_3RD_PARTY_def)

subsection \<open>The scan binds the last match\<close>

lemma find_models_Nil: "find_models [] = (None, None)"
  by (simp add: find_models_def)

lemma find_models_snoc:
  "find_models (ms @ [m]) = find_step (find_models ms) (length ms, m)"
  by (simp add: find_models_def enumerate_append_eq)

lemma find_models_third_party_None:
  "fst (find_models ms) = None \<longleftrightarrow> (\<forall>m \<in> set ms. \<not> contains (path m) KICAD_3RD_PARTY)"
proof (induction ms rule: rev_induct)
  case Nil
  show ?case by (simp add: find_models_Nil)
next
  case (snoc m ms)
  obtain a b where "find_models ms = (a, b)" by (cases "find_models ms")
  with snoc show ?case
    by (auto simp: find_models_snoc find_step_def)
qed

lemma find_models_third_party_Some:
  "fst (find_models ms) = Some i \<Longrightarrow>
     i < length ms \<and> contains (path (ms ! i)) KICAD_3RD_PARTY \<and>
     (\<forall>k. i < k \<and> k < length ms \<longrightarrow> \<not> contains (path (ms ! k)) KICAD_3RD_PARTY)"
proof (induction ms arbitrary: i rule: rev_induct)
  case Nil
  then show ?case by (simp add: find_models_Nil)
next
  case (snoc m ms)
  obtain a b where ab: "find_models ms = (a, b)" by (cases "find_models ms")
  show ?case
  proof (cases "contains (path m) KICAD_3RD_PARTY")
    case True
    with snoc.prems ab have "i = length ms"
      by (simp add: find_models_snoc find_step_def)
    with True show ?thesis by auto
  next
    case False
    with snoc.prems ab have "fst (find_models ms) = Some i"
      by (simp add: find_models_snoc find_step_def split: if_splits)
    from snoc.IH[OF this] False show ?thesis
      by (auto simp: nth_append less_Suc_eq)
  qed
qed

lemma find_models_project_None:
  "snd (find_models ms) = None \<longleftrightarrow>
     (\<forall>m \<in> set ms. contains (path m) KICAD_3RD_PARTY \<or> \<not> contains (path m) KIPRJMOD)"
proof (induction ms rule: rev_induct)
  case Nil
  show ?case by (simp add: find_models_Nil)
next
  case (snoc m ms)
  obtain a b where "find_models ms = (a, b)" by (cases "find_models ms")
  with snoc show ?case
    by (auto simp: find_models_snoc find_step_def)
qed

lemma find_models_project_Some:
  "snd (find_models ms) = Some j \<Longrightarrow>
     j < length ms \<and> \<not> contains (path (ms ! j)) KICAD_3RD_PARTY \<and>
     contains (path (ms ! j)) KIPRJMOD \<and>
     (\<forall>k. j < k \<and> k < length ms \<longrightarrow>
        contains (path (ms ! k)) KICAD_3RD_PARTY \<or> \<not> contains (path (ms ! k)) KIPRJMOD)"
proof (induction ms arbitrary: j rule: rev_induct)
  case Nil
  then show ?case by (simp add: find_models_Nil)
next
  case (snoc m ms)
  obtain a b where ab: "find_models ms = (a, b)" by (cases "find_models ms")
  show ?case
  proof (cases "\<not> contains (path m) KICAD_3RD_PARTY \<and> contains (path m) KIPRJMOD")
    case True
    with snoc.prems ab have "j = length ms"
      by (simp add: find_models_snoc find_step_def)
    with True show ?thesis by auto
  next
    case False
    with snoc.prems ab have "snd (find_models ms) = Some j"
      by (auto simp: find_models_snoc find_step_def split: if_splits)
    from snoc.IH[OF this] False show ?thesis
      by (auto simp: nth_append less_Suc_eq)
  qed
qed

text \<open>The scan reads nothing but the paths.\<close>

lemma find_models_cong:
  "map path ms = map path ms' \<Longrightarrow> find_models ms = find_models ms'"
proof (induction ms arbitrary: ms' rule: rev_induct)
  case Nil
  then show ?case by simp
next
  case (snoc m ms)
  from snoc.prems obtain m' ms2 where ms': "ms' = ms2 @ [m']"
    by (cases ms' rule: rev_cases) auto
  with snoc.prems have "map path ms = map path ms2" "path m = path m'" by auto
  with snoc.IH[of ms2] ms' show ?case
    by (simp add: find_models_snoc find_step_def map_eq_imp_length_eq[of path ms path ms2]
        split: prod.splits)
qed

lemma find_models_distinct:
  assumes "find_models ms = (Some i, Some j)"
  shows "i \<noteq> j"
  using find_models_third_party_Some[of ms i] find_models_project_Some[of ms j] assms
  by auto

subsection \<open>The store\<close>

lemma Coordinate_eta: "\<lparr>X = X c, Y = Y c, Z = Z c\<rparr> = c"
  by (cases c) simp

lemma copy_Coordinate_eq:
  "copy_Coordinate a h =
     (next_addr h, h\<lparr>coords := (coords h)(next_addr h := coords h a),
                     next_addr := Suc (next_addr h)\<rparr>)"
  by (simp add: copy_Coordinate_def new_Coordinate_def Coordinate_eta)

lemma frame_refl: "frame h h"
  by (simp add: frame_def)

lemma frame_trans: "frame h h1 \<Longrightarrow> frame h1 h2 \<Longrightarrow> frame h h2"
  by (auto simp: frame_def)

lemma frame_coords: "frame h h' \<Longrightarrow> a < next_addr h \<Longrightarrow> coords h' a = coords h a"
  by (simp add: frame_def)

lemma frame_next: "frame h h' \<Longrightarrow> next_addr h \<le> next_addr h'"
  by (simp add: frame_def)

lemma wf_heap_nth:
  "wf_heap h footprint \<Longrightarrow> i < length (models footprint) \<Longrightarrow>
     pos (models footprint ! i) < next_addr h \<and> scale (models footprint ! i) < next_addr h \<and>
     rotate_m (models footprint ! i) < next_addr h"
  by (simp add: wf_heap_def list_all_length)

subsection \<open>The update path, step by step\<close>

lemma sync_pos_facts:
  assumes "sync_pos tp (m, h, pm) = (m', h', pm')"
  shows "path pm' = path pm" "scale pm' = scale pm" "rotate_m pm' = rotate_m pm"
    "hide pm' = hide pm" "opacity pm' = opacity pm" "frame h h'"
    "m' \<longleftrightarrow> m \<or> coords h (pos pm) \<noteq> coords h (pos tp)"
    "coords h (pos pm) = coords h (pos tp) \<Longrightarrow> pos pm' = pos pm"
    "coords h (pos pm) \<noteq> coords h (pos tp) \<Longrightarrow>
       next_addr h \<le> pos pm' \<and> pos pm' < next_addr h' \<and> coords h' (pos pm') = coords h (pos tp)"
  using assms by (auto simp: sync_pos_def copy_Coordinate_eq frame_def split: if_splits)

lemma sync_scale_facts:
  assumes "sync_scale tp (m, h, pm) = (m', h', pm')"
  shows "path pm' = path pm" "pos pm' = pos pm" "rotate_m pm' = rotate_m pm"
    "hide pm' = hide pm" "opacity pm' = opacity pm" "frame h h'"
    "m' \<longleftrightarrow> m \<or> coords h (scale pm) \<noteq> coords h (scale tp)"
    "coords h (scale pm) = coords h (scale tp) \<Longrightarrow> scale pm' = scale pm"
    "coords h (scale pm) \<noteq> coords h (scale tp) \<Longrightarrow>
       next_addr h \<le> scale pm' \<and> scale pm' < next_addr h' \<and> coords h' (scale pm') = coords h (scale tp)"
  using assms by (auto simp: sync_scale_def copy_Coordinate_eq frame_def split: if_splits)

lemma sync_rotate_facts:
  assumes "sync_rotate tp (m, h, pm) = (m', h', pm')"
  shows "path pm' = path pm" "pos pm' = pos pm" "scale pm' = scale pm"
    "hide pm' = hide pm" "opacity pm' = opacity pm" "frame h h'"
    "m' \<longleftrightarrow> m \<or> coords h (rotate_m pm) \<noteq> coords h (rotate_m tp)"
    "coords h (rotate_m pm) = coords h (rotate_m tp) \<Longrightarrow> rotate_m pm' = rotate_m pm"
    "coords h (rotate_m pm) \<noteq> coords h (rotate_m tp) \<Longrightarrow>
       next_addr h \<le> rotate_m pm' \<and> rotate_m pm' < next_addr h' \<and>
       coords h' (rotate_m pm') = coords h (rotate_m tp)"
  using assms by (auto simp: sync_rotate_def copy_Coordinate_eq frame_def split: if_splits)

lemma sync_hide_facts:
  assumes "sync_hide tp (m, h, pm) = (m', h', pm')"
  shows "path pm' = path pm" "pos pm' = pos pm" "scale pm' = scale pm" "rotate_m pm' = rotate_m pm"
    "opacity pm' = opacity pm" "h' = h" "hide pm' = hide tp"
    "m' \<longleftrightarrow> m \<or> hide pm \<noteq> hide tp"
  using assms by (auto simp: sync_hide_def split: if_splits)

lemma sync_opacity_facts:
  assumes "sync_opacity tp (m, h, pm) = (m', h', pm')"
  shows "path pm' = path pm" "pos pm' = pos pm" "scale pm' = scale pm" "rotate_m pm' = rotate_m pm"
    "hide pm' = hide pm" "h' = h" "opacity pm' = opacity tp"
    "m' \<longleftrightarrow> m \<or> opacity pm \<noteq> opacity tp"
  using assms by (auto simp: sync_opacity_def split: if_splits)

lemma update_project_model_facts:
  assumes upd: "update_project_model h tp pm = (m, h', pm')"
    and wf: "pos tp < next_addr h" "scale tp < next_addr h" "rotate_m tp < next_addr h"
      "pos pm < next_addr h" "scale pm < next_addr h" "rotate_m pm < next_addr h"
  shows "path pm' = path pm" "hide pm' = hide tp" "opacity pm' = opacity tp" "frame h h'"
    "m \<longleftrightarrow> coords h (pos pm) \<noteq> coords h (pos tp) \<or> coords h (scale pm) \<noteq> coords h (scale tp) \<or>
       coords h (rotate_m pm) \<noteq> coords h (rotate_m tp) \<or> hide pm \<noteq> hide tp \<or>
       opacity pm \<noteq> opacity tp"
    "coords h (pos pm) = coords h (pos tp) \<Longrightarrow> pos pm' = pos pm"
    "coords h (pos pm) \<noteq> coords h (pos tp) \<Longrightarrow>
       next_addr h \<le> pos pm' \<and> pos pm' < next_addr h' \<and> coords h' (pos pm') = coords h (pos tp)"
    "coords h (scale pm) = coords h (scale tp) \<Longrightarrow> scale pm' = scale pm"
    "coords h (scale pm) \<noteq> coords h (scale tp) \<Longrightarrow>
       next_addr h \<le> scale pm' \<and> scale pm' < next_addr h' \<and> coords h' (scale pm') = coords h (scale tp)"
    "coords h (rotate_m pm) = coords h (rotate_m tp) \<Longrightarrow> rotate_m pm' = rotate_m pm"
    "coords h (rotate_m pm) \<noteq> coords h (rotate_m tp) \<Longrightarrow>
       next_addr h \<le> rotate_m pm' \<and> rotate_m pm' < next_addr h' \<and>
       coords h' (rotate_m pm') = coords h (rotate_m tp)"
proof -
  obtain m1 h1 pm1 where s1: "sync_pos tp (False, h, pm) = (m1, h1, pm1)"
    by (cases "sync_pos tp (False, h, pm)")
  obtain m2 h2 pm2 where s2: "sync_scale tp (m1, h1, pm1) = (m2, h2, pm2)"
    by (cases "sync_scale tp (m1, h1, pm1)")
  obtain m3 h3 pm3 where s3: "sync_rotate tp (m2, h2, pm2) = (m3, h3, pm3)"
    by (cases "sync_rotate tp (m2, h2, pm2)")
  obtain m4 h4 pm4 where s4: "sync_hide tp (m3, h3, pm3) = (m4, h4, pm4)"
    by (cases "sync_hide tp (m3, h3, pm3)")
  from upd s1 s2 s3 s4 have s5: "sync_opacity tp (m4, h4, pm4) = (m, h', pm')"
    by (simp add: update_project_model_def)
  note f1 = sync_pos_facts[OF s1] and f2 = sync_scale_facts[OF s2]
    and f3 = sync_rotate_facts[OF s3] and f4 = sync_hide_facts[OF s4]
    and f5 = sync_opacity_facts[OF s5]
  have h4: "h4 = h3" and h': "h' = h3"
    using f4(6) f5(6) by simp_all
  have fr1: "frame h h1" by (rule f1(6))
  have fr2: "frame h h2" using fr1 f2(6) by (rule frame_trans)
  have fr23: "frame h2 h3" by (rule f3(6))
  have fr3: "frame h h3" using fr2 fr23 by (rule frame_trans)
  show "path pm' = path pm"
    by (simp add: f1(1) f2(1) f3(1) f4(1) f5(1))
  show "hide pm' = hide tp"
    by (simp add: f4(7) f5(5))
  show "opacity pm' = opacity tp"
    by (rule f5(7))
  show "frame h h'"
    using fr3 h' by simp
  have sc1: "coords h1 (scale pm1) = coords h (scale pm)" "coords h1 (scale tp) = coords h (scale tp)"
    using frame_coords[OF fr1] wf by (simp_all add: f1(2))
  have ro2: "coords h2 (rotate_m pm2) = coords h (rotate_m pm)"
    "coords h2 (rotate_m tp) = coords h (rotate_m tp)"
    using frame_coords[OF fr2] wf by (simp_all add: f1(3) f2(3))
  show "m \<longleftrightarrow> coords h (pos pm) \<noteq> coords h (pos tp) \<or> coords h (scale pm) \<noteq> coords h (scale tp) \<or>
       coords h (rotate_m pm) \<noteq> coords h (rotate_m tp) \<or> hide pm \<noteq> hide tp \<or>
       opacity pm \<noteq> opacity tp"
    unfolding f5(8) f4(8) f3(7) f2(7) f1(7) sc1 ro2
    by (auto simp add: f4(5) f3(4) f3(5) f2(4) f2(5) f1(4) f1(5))
  have pos_keep: "pos pm' = pos pm1"
    by (simp add: f2(2) f3(2) f4(2) f5(2))
  show "coords h (pos pm) = coords h (pos tp) \<Longrightarrow> pos pm' = pos pm"
    using f1(8) pos_keep by simp
  show "next_addr h \<le> pos pm' \<and> pos pm' < next_addr h' \<and> coords h' (pos pm') = coords h (pos tp)"
    if d: "coords h (pos pm) \<noteq> coords h (pos tp)"
  proof -
    from f1(9)[OF d] have a: "next_addr h \<le> pos pm1" "pos pm1 < next_addr h1"
      "coords h1 (pos pm1) = coords h (pos tp)" by simp_all
    have fr13: "frame h1 h3" using f2(6) fr23 by (rule frame_trans)
    from frame_coords[OF fr13 a(2)] frame_next[OF fr13] a show ?thesis
      by (simp add: pos_keep h')
  qed
  have scale_keep: "scale pm' = scale pm2"
    by (simp add: f3(3) f4(3) f5(3))
  show "coords h (scale pm) = coords h (scale tp) \<Longrightarrow> scale pm' = scale pm"
    using f2(8) sc1 scale_keep by (simp add: f1(2))
  show "next_addr h \<le> scale pm' \<and> scale pm' < next_addr h' \<and> coords h' (scale pm') = coords h (scale tp)"
    if d: "coords h (scale pm) \<noteq> coords h (scale tp)"
  proof -
    from d sc1 have "coords h1 (scale pm1) \<noteq> coords h1 (scale tp)" by simp
    from f2(9)[OF this] have a: "next_addr h1 \<le> scale pm2" "scale pm2 < next_addr h2"
      "coords h2 (scale pm2) = coords h (scale tp)" by (simp_all add: sc1)
    from frame_coords[OF fr23 a(2)] frame_next[OF fr23] frame_next[OF fr1] a show ?thesis
      by (simp add: scale_keep h')
  qed
  have rotate_keep: "rotate_m pm' = rotate_m pm3"
    by (simp add: f4(4) f5(4))
  show "coords h (rotate_m pm) = coords h (rotate_m tp) \<Longrightarrow> rotate_m pm' = rotate_m pm"
    using f3(8) ro2 rotate_keep by (simp add: f1(3) f2(3))
  show "next_addr h \<le> rotate_m pm' \<and> rotate_m pm' < next_addr h' \<and>
       coords h' (rotate_m pm') = coords h (rotate_m tp)"
    if d: "coords h (rotate_m pm) \<noteq> coords h (rotate_m tp)"
  proof -
    from d ro2 have "coords h2 (rotate_m pm2) \<noteq> coords h2 (rotate_m tp)" by simp
    from f3(9)[OF this] have a: "next_addr h2 \<le> rotate_m pm3" "rotate_m pm3 < next_addr h3"
      "coords h3 (rotate_m pm3) = coords h (rotate_m tp)" by (simp_all add: ro2)
    from frame_next[OF fr2] a show ?thesis
      by (simp add: rotate_keep h')
  qed
qed

lemma update_project_model_equal:
  assumes "coords h (pos pm) = coords h (pos tp)"
    and "coords h (scale pm) = coords h (scale tp)"
    and "coords h (rotate_m pm) = coords h (rotate_m tp)"
    and "hide pm = hide tp" and "opacity pm = opacity tp"
  shows "update_project_model h tp pm = (False, h, pm)"
  using assms
  by (simp add: update_project_model_def sync_pos_def sync_scale_def sync_rotate_def
      sync_hide_def sync_opacity_def)

subsection \<open>The create path\<close>

lemma create_project_model_facts:
  assumes "create_project_model h tp = (h', new)"
  shows "path new = ''${KIPRJMOD}/3d-models/'' @ basename (path tp)"
    "hide new = hide tp" "opacity new = opacity tp"
    "pos new = next_addr h" "scale new = Suc (next_addr h)" "rotate_m new = Suc (Suc (next_addr h))"
    "next_addr h' = Suc (Suc (Suc (next_addr h)))" "frame h h'"
    "coords h' (pos new) = coords h (pos tp)"
    "scale tp < next_addr h \<Longrightarrow> coords h' (scale new) = coords h (scale tp)"
    "rotate_m tp < next_addr h \<Longrightarrow> coords h' (rotate_m new) = coords h (rotate_m tp)"
  using assms
  by (auto simp: create_project_model_def copy_Coordinate_eq frame_def)


subsection \<open>The three exits of \<^verbatim>\<open>sync_models\<close>\<close>

lemma sync_models_no_third_party:
  "fst (find_models (models footprint)) = None \<Longrightarrow>
     sync_models h footprint = (False, h, footprint)"
  by (cases "find_models (models footprint)") (simp add: sync_models_def)

lemma sync_models_create:
  assumes "find_models (models footprint) = (Some i, None)"
  shows "sync_models h footprint =
     (case create_project_model h (models footprint ! i) of
        (h', project_model) \<Rightarrow>
          (True, h', footprint\<lparr>models := models footprint @ [project_model]\<rparr>))"
proof -
  from assms have "models footprint \<noteq> []"
    by (auto simp: find_models_Nil)
  with assms show ?thesis
    by (simp add: sync_models_def)
qed

lemma sync_models_update:
  assumes "find_models (models footprint) = (Some i, Some j)"
  shows "sync_models h footprint =
     (case update_project_model h (models footprint ! i) (models footprint ! j) of
        (modified, h', project_model) \<Rightarrow>
          (modified, h', footprint\<lparr>models := (models footprint)[j := project_model]\<rparr>))"
proof -
  from assms have "models footprint \<noteq> []"
    by (auto simp: find_models_Nil)
  with assms show ?thesis
    by (simp add: sync_models_def)
qed

subsection \<open>A second run\<close>

lemma second_run_after_create:
  assumes wf: "wf_heap h footprint"
    and fm: "find_models (models footprint) = (Some i, None)"
    and name: "\<not> contains (basename (path (models footprint ! i))) KICAD_3RD_PARTY"
    and run: "sync_models h footprint = (modified, h', footprint')"
  shows "sync_models h' footprint' = (False, h', footprint')"
proof -
  let ?ms = "models footprint"
  let ?tp = "?ms ! i"
  obtain h3 new where cr: "create_project_model h ?tp = (h3, new)"
    by (cases "create_project_model h ?tp")
  note c = create_project_model_facts[OF cr]
  from run fm cr have res: "h' = h3" "footprint' = footprint\<lparr>models := ?ms @ [new]\<rparr>"
    by (simp_all add: sync_models_create)
  from fm find_models_third_party_Some[of ?ms i] have i: "i < length ?ms" by simp
  from wf_heap_nth[OF wf i] have a: "pos ?tp < next_addr h" "scale ?tp < next_addr h"
    "rotate_m ?tp < next_addr h" by simp_all
  have p1: "\<not> contains (path new) KICAD_3RD_PARTY"
    unfolding c(1) contains_created_path by (rule name)
  have "path new = KIPRJMOD @ ''/3d-models/'' @ basename (path ?tp)"
    by (simp add: c(1) KIPRJMOD_def)
  then have p2: "contains (path new) KIPRJMOD"
    by (simp only: contains_project_prefix)
  have fm': "find_models (?ms @ [new]) = (Some i, Some (length ?ms))"
    using fm p1 p2 by (simp add: find_models_snoc find_step_def)
  have nth: "(?ms @ [new]) ! i = ?tp" "(?ms @ [new]) ! length ?ms = new"
    using i by (simp_all add: nth_append)
  have eq: "coords h3 (pos new) = coords h3 (pos ?tp)"
    "coords h3 (scale new) = coords h3 (scale ?tp)"
    "coords h3 (rotate_m new) = coords h3 (rotate_m ?tp)"
    using c(9) c(10)[OF a(2)] c(11)[OF a(3)] frame_coords[OF c(8)] a by simp_all
  have upd: "update_project_model h3 ?tp new = (False, h3, new)"
    using eq c(2) c(3) by (rule update_project_model_equal)
  have "sync_models h3 (footprint\<lparr>models := ?ms @ [new]\<rparr>) =
      (False, h3, footprint\<lparr>models := ?ms @ [new]\<rparr>)"
    using fm' by (simp add: sync_models_update nth upd)
  with res show ?thesis by simp
qed

lemma second_run_after_update:
  assumes wf: "wf_heap h footprint"
    and fm: "find_models (models footprint) = (Some i, Some j)"
    and run: "sync_models h footprint = (modified, h', footprint')"
  shows "sync_models h' footprint' = (False, h', footprint')"
proof -
  let ?ms = "models footprint"
  let ?tp = "?ms ! i" and ?pm = "?ms ! j"
  obtain m h1 pm' where up: "update_project_model h ?tp ?pm = (m, h1, pm')"
    by (cases "update_project_model h ?tp ?pm") auto
  from run fm up have res: "h' = h1" "footprint' = footprint\<lparr>models := ?ms[j := pm']\<rparr>"
    by (simp_all add: sync_models_update)
  from fm find_models_third_party_Some[of ?ms i] have i: "i < length ?ms" by simp
  from fm find_models_project_Some[of ?ms j] have j: "j < length ?ms" by simp
  from fm have ij: "i \<noteq> j" by (rule find_models_distinct)
  from wf_heap_nth[OF wf i] have a: "pos ?tp < next_addr h" "scale ?tp < next_addr h"
    "rotate_m ?tp < next_addr h" by simp_all
  from wf_heap_nth[OF wf j] have b: "pos ?pm < next_addr h" "scale ?pm < next_addr h"
    "rotate_m ?pm < next_addr h" by simp_all
  note u = update_project_model_facts[OF up a b]
  have "map path (?ms[j := pm']) = map path ?ms"
    by (simp add: map_update u(1) list_update_same_conv j)
  from find_models_cong[OF this] fm have fm': "find_models (?ms[j := pm']) = (Some i, Some j)"
    by simp
  have nth: "?ms[j := pm'] ! i = ?tp" "?ms[j := pm'] ! j = pm'"
    using ij j by simp_all
  have e1: "coords h1 (pos pm') = coords h1 (pos ?tp)"
  proof (cases "coords h (pos ?pm) = coords h (pos ?tp)")
    case True
    with u(6) frame_coords[OF u(4)] a b show ?thesis by simp
  next
    case False
    with u(7) frame_coords[OF u(4)] a show ?thesis by simp
  qed
  have e2: "coords h1 (scale pm') = coords h1 (scale ?tp)"
  proof (cases "coords h (scale ?pm) = coords h (scale ?tp)")
    case True
    with u(8) frame_coords[OF u(4)] a b show ?thesis by simp
  next
    case False
    with u(9) frame_coords[OF u(4)] a show ?thesis by simp
  qed
  have e3: "coords h1 (rotate_m pm') = coords h1 (rotate_m ?tp)"
  proof (cases "coords h (rotate_m ?pm) = coords h (rotate_m ?tp)")
    case True
    with u(10) frame_coords[OF u(4)] a b show ?thesis by simp
  next
    case False
    with u(11) frame_coords[OF u(4)] a show ?thesis by simp
  qed
  have upd: "update_project_model h1 ?tp pm' = (False, h1, pm')"
    using e1 e2 e3 u(2) u(3) by (rule update_project_model_equal)
  have "sync_models h1 (footprint\<lparr>models := ?ms[j := pm']\<rparr>) =
      (False, h1, footprint\<lparr>models := ?ms[j := pm']\<rparr>)"
    using fm' by (simp add: sync_models_update nth upd)
  with res show ?thesis by simp
qed

lemma second_run_creates_again:
  assumes fm: "find_models (models footprint) = (Some i, None)"
    and name: "contains (basename (path (models footprint ! i))) KICAD_3RD_PARTY"
    and run: "sync_models h footprint = (modified, h', footprint')"
  shows "fst (sync_models h' footprint')"
proof -
  let ?ms = "models footprint"
  let ?tp = "?ms ! i"
  obtain h3 new where cr: "create_project_model h ?tp = (h3, new)"
    by (cases "create_project_model h ?tp")
  note c = create_project_model_facts[OF cr]
  from run fm cr have res: "h' = h3" "footprint' = footprint\<lparr>models := ?ms @ [new]\<rparr>"
    by (simp_all add: sync_models_create)
  have "contains (path new) KICAD_3RD_PARTY"
    unfolding c(1) contains_created_path by (rule name)
  with fm have "find_models (?ms @ [new]) = (Some (length ?ms), None)"
    by (simp add: find_models_snoc find_step_def)
  then show ?thesis
    by (simp add: res sync_models_create split: prod.splits)
qed

subsection \<open>The file pipeline\<close>

lemma process_files_append:
  "process_files from_file to_file fs (ps @ qs) dry_run n =
     (case process_files from_file to_file fs ps dry_run n of
        (k, fs') \<Rightarrow> process_files from_file to_file fs' qs dry_run k)"
  by (induction ps arbitrary: fs n) (auto split: prod.splits bool.splits)

lemma process_footprint_file_dry:
  "snd (process_footprint_file from_file to_file fs filepath True) = fs"
  by (simp add: process_footprint_file_def split: sum.splits prod.splits)

lemma process_files_dry:
  "snd (process_files from_file to_file fs ps True n) = fs"
proof (induction ps arbitrary: n)
  case Nil
  show ?case by simp
next
  case (Cons p ps)
  obtain b fs' where r: "process_footprint_file from_file to_file fs p True = (b, fs')"
    by (cases "process_footprint_file from_file to_file fs p True")
  with process_footprint_file_dry[of from_file to_file fs p] have "fs' = fs" by simp
  with r Cons show ?case by (cases b) simp_all
qed

lemma process_files_count:
  "n \<le> fst (process_files from_file to_file fs ps dry_run n) \<and>
   fst (process_files from_file to_file fs ps dry_run n) \<le> n + length ps"
proof (induction ps arbitrary: fs n)
  case Nil
  show ?case by simp
next
  case (Cons p ps)
  obtain b fs' where r: "process_footprint_file from_file to_file fs p dry_run = (b, fs')"
    by (cases "process_footprint_file from_file to_file fs p dry_run")
  show ?case
  proof (cases b)
    case True
    with r Cons[where fs = fs' and n = "n + 1"] show ?thesis by simp
  next
    case False
    with r Cons[where fs = fs' and n = n] show ?thesis by simp
  qed
qed

lemma process_footprint_file_load_failure:
  "from_file fs filepath = Inl e \<Longrightarrow>
     process_footprint_file from_file to_file fs filepath dry_run = (False, fs)"
  by (simp add: process_footprint_file_def)

lemma process_footprint_file_save_failure:
  "from_file fs filepath = Inr (h, footprint) \<Longrightarrow>
   sync_models h footprint = (True, h', footprint') \<Longrightarrow>
   to_file fs (h', footprint') filepath = (Some e, fs') \<Longrightarrow>
     process_footprint_file from_file to_file fs filepath False = (False, fs')"
  by (simp add: process_footprint_file_def)

subsection \<open>The examples, evaluated\<close>

lemma example_update_find:
  "find_models [moved_third_party, part_project] = (Some 0, Some 1)"
  by (simp add: find_models_def find_step_def example_defs)

lemma example_update_run:
  "sync_models example_heap \<lparr>models = [moved_third_party, part_project]\<rparr> =
     (True,
      \<lparr>coords = (coords example_heap)(4 := \<lparr>X = 5, Y = 0, Z = 0\<rparr>), next_addr = 5\<rparr>,
      \<lparr>models = [moved_third_party, part_project\<lparr>pos := 4\<rparr>]\<rparr>)"
proof -
  have "update_project_model example_heap moved_third_party part_project =
     (True, \<lparr>coords = (coords example_heap)(4 := \<lparr>X = 5, Y = 0, Z = 0\<rparr>), next_addr = 5\<rparr>,
      part_project\<lparr>pos := 4\<rparr>)"
    by (simp add: update_project_model_def sync_pos_def sync_scale_def sync_rotate_def
        sync_hide_def sync_opacity_def copy_Coordinate_def new_Coordinate_def example_defs)
  then show ?thesis
    by (simp add: sync_models_update[of _ 0 1] example_update_find)
qed

lemma example_update_wf: "wf_heap example_heap \<lparr>models = [moved_third_party, part_project]\<rparr>"
  by (simp add: wf_heap_def example_defs)

lemma example_create_find: "find_models [part_third_party] = (Some 0, None)"
  by (simp add: find_models_def find_step_def example_defs)

lemma example_create_run:
  "sync_models example_heap \<lparr>models = [part_third_party]\<rparr> =
     (True,
      \<lparr>coords = (coords example_heap)
         (4 := \<lparr>X = 1, Y = 2, Z = 3\<rparr>, 5 := \<lparr>X = 1, Y = 1, Z = 1\<rparr>, 6 := \<lparr>X = 0, Y = 0, Z = 0\<rparr>),
       next_addr = 7\<rparr>,
      \<lparr>models = [part_third_party,
         \<lparr>path = ''${KIPRJMOD}/3d-models/part.step'', pos = 4, scale = 5, rotate_m = 6,
          hide = False, opacity = 1\<rparr>]\<rparr>)"
  by (simp add: sync_models_def find_models_def find_step_def create_project_model_def
      copy_Coordinate_def new_Coordinate_def basename_def example_defs)

lemma example_create_wf: "wf_heap example_heap \<lparr>models = [part_third_party]\<rparr>"
  by (simp add: wf_heap_def example_defs)

lemma example_both_find: "find_models [both_tokens] = (Some 0, None)"
  by (simp add: find_models_def find_step_def example_defs)

lemma example_files:
  "find_footprint_files example_walk example_fs ''.'' = [''./bad.kicad_mod'', ''./good.kicad_mod'']"
  by (simp add: find_footprint_files_def example_walk_def path_join_def suffix_def)

lemma example_process_bad:
  "process_footprint_file example_from_file example_to_file example_fs ''./bad.kicad_mod'' dry_run
     = (False, example_fs)"
  by (simp add: process_footprint_file_def example_from_file_def example_fs_def)

lemma example_process_good:
  "process_footprint_file example_from_file example_to_file example_fs ''./good.kicad_mod'' False
     = (True, example_fs(''./good.kicad_mod'' := Document synced_heap synced_footprint))"
  by (simp add: process_footprint_file_def example_from_file_def example_fs_def
      example_update_run example_to_file_def synced_heap_def synced_footprint_def)

lemma example_process_good_dry:
  "process_footprint_file example_from_file example_to_file example_fs ''./good.kicad_mod'' True
     = (True, example_fs)"
  by (simp add: process_footprint_file_def example_from_file_def example_fs_def
      example_update_run)

lemma example_process_locked:
  "process_footprint_file example_from_file example_to_file example_fs ''./locked.kicad_mod'' False
     = (False, example_fs)"
  by (simp add: process_footprint_file_def example_from_file_def example_fs_def
      example_create_run example_to_file_def)

lemma example_main:
  "main example_walk example_from_file example_to_file None ''.'' False example_fs =
     \<lparr>exit_status = 1, summary = Some (2, 1),
      files = example_fs(''./good.kicad_mod'' := Document synced_heap synced_footprint)\<rparr>"
  by (simp add: main_def example_files example_process_bad example_process_good)

lemma example_main_dry:
  "main example_walk example_from_file example_to_file None ''.'' True example_fs =
     \<lparr>exit_status = 0, summary = Some (2, 1), files = example_fs\<rparr>"
  by (simp add: main_def example_files example_process_bad example_process_good_dry)

lemma example_bare_run:
  "sync_models example_heap \<lparr>models = [bare_third_party]\<rparr> =
     (True,
      \<lparr>coords = (coords example_heap)
         (4 := \<lparr>X = 1, Y = 2, Z = 3\<rparr>, 5 := \<lparr>X = 1, Y = 1, Z = 1\<rparr>, 6 := \<lparr>X = 0, Y = 0, Z = 0\<rparr>),
       next_addr = 7\<rparr>,
      \<lparr>models = [bare_third_party,
         \<lparr>path = ''${KIPRJMOD}/3d-models/${KICAD_3RD_PARTY}part.step'', pos = 4, scale = 5,
          rotate_m = 6, hide = False, opacity = 1\<rparr>]\<rparr>)"
  by (simp add: sync_models_def find_models_def find_step_def create_project_model_def
      copy_Coordinate_def new_Coordinate_def basename_def example_defs)

text \<open>A new object is none of the objects a well-formed record refers to.\<close>

lemma fresh_not_third_party:
  assumes "pos tp < next_addr h" "scale tp < next_addr h" "rotate_m tp < next_addr h"
    and "next_addr h \<le> a"
  shows "a \<notin> {pos tp, scale tp, rotate_m tp}"
  using assms by auto

section \<open>The claims\<close>

subsection \<open>C1: which record the scan binds\<close>

text \<open>
  C1 as stated (first match wins) fails. On two third-party records the scan binds the
  second, where the specification's matcher binds the first; likewise on two project
  records. What \<^verbatim>\<open>sync_models\<close> then creates is named after the second record.
\<close>

theorem first_match_counterexample:
  "find_models [part_third_party, other_third_party] = (Some 1, None) \<and>
   classify_spec [part_third_party, other_third_party] = (Some 0, None) \<and>
   find_models [part_project, part_project\<lparr>hide := True\<rparr>] = (None, Some 1) \<and>
   classify_spec [part_project, part_project\<lparr>hide := True\<rparr>] = (None, Some 0) \<and>
   map path (models (snd (snd (sync_models example_heap
       \<lparr>models = [part_third_party, other_third_party]\<rparr>)))) =
     [''${KICAD_3RD_PARTY}/lib/part.step'', ''${KICAD_3RD_PARTY}/lib/other.step'',
      ''${KIPRJMOD}/3d-models/other.step'']"
  by (simp add: sync_models_def find_models_def find_step_def classify_spec_def
      create_project_model_def copy_Coordinate_def new_Coordinate_def basename_def
      example_defs)

text \<open>
  C1, amended: the scan binds the LAST record whose path contains the third-party token
  as the third-party record, and the LAST record whose path contains the project token
  and not the third-party token as the project-local record; earlier records with the
  same token are shadowed. A variable stays unbound exactly when no record qualifies.
\<close>

theorem find_models_last_match:
  "case find_models ms of (third_party_model, project_model) \<Rightarrow>
     (case third_party_model of
        None \<Rightarrow> \<forall>m \<in> set ms. \<not> contains (path m) KICAD_3RD_PARTY
      | Some i \<Rightarrow> i < length ms \<and> contains (path (ms ! i)) KICAD_3RD_PARTY \<and>
          (\<forall>k. i < k \<and> k < length ms \<longrightarrow> \<not> contains (path (ms ! k)) KICAD_3RD_PARTY)) \<and>
     (case project_model of
        None \<Rightarrow> \<forall>m \<in> set ms. contains (path m) KICAD_3RD_PARTY \<or> \<not> contains (path m) KIPRJMOD
      | Some j \<Rightarrow> j < length ms \<and> \<not> contains (path (ms ! j)) KICAD_3RD_PARTY \<and>
          contains (path (ms ! j)) KIPRJMOD \<and>
          (\<forall>k. j < k \<and> k < length ms \<longrightarrow>
             contains (path (ms ! k)) KICAD_3RD_PARTY \<or> \<not> contains (path (ms ! k)) KIPRJMOD))"
proof -
  obtain a b where ab: "find_models ms = (a, b)" by (cases "find_models ms")
  have A: "case a of
        None \<Rightarrow> \<forall>m \<in> set ms. \<not> contains (path m) KICAD_3RD_PARTY
      | Some i \<Rightarrow> i < length ms \<and> contains (path (ms ! i)) KICAD_3RD_PARTY \<and>
          (\<forall>k. i < k \<and> k < length ms \<longrightarrow> \<not> contains (path (ms ! k)) KICAD_3RD_PARTY)"
  proof (cases a)
    case None
    with ab find_models_third_party_None[of ms] show ?thesis by simp
  next
    case (Some i)
    with ab find_models_third_party_Some[of ms i] show ?thesis by simp
  qed
  have B: "case b of
        None \<Rightarrow> \<forall>m \<in> set ms. contains (path m) KICAD_3RD_PARTY \<or> \<not> contains (path m) KIPRJMOD
      | Some j \<Rightarrow> j < length ms \<and> \<not> contains (path (ms ! j)) KICAD_3RD_PARTY \<and>
          contains (path (ms ! j)) KIPRJMOD \<and>
          (\<forall>k. j < k \<and> k < length ms \<longrightarrow>
             contains (path (ms ! k)) KICAD_3RD_PARTY \<or> \<not> contains (path (ms ! k)) KIPRJMOD)"
  proof (cases b)
    case None
    with ab find_models_project_None[of ms] show ?thesis by simp
  next
    case (Some j)
    with ab find_models_project_Some[of ms j] show ?thesis by simp
  qed
  from A B ab show ?thesis by simp
qed

theorem find_models_last_match_witness:
  "find_models [part_third_party, part_project, other_third_party, part_project\<lparr>hide := True\<rparr>]
     = (Some 2, Some 3)"
proof -
  let ?ms = "[part_third_party, part_project, other_third_party, part_project\<lparr>hide := True\<rparr>]"
  obtain a b where ab: "find_models ?ms = (a, b)"
    by (cases "find_models ?ms")
  have t3: "contains (path (?ms ! 2)) KICAD_3RD_PARTY"
    and pl: "\<not> contains (path (?ms ! 3)) KICAD_3RD_PARTY" "contains (path (?ms ! 3)) KIPRJMOD"
    by (simp_all add: example_defs)
  note t = find_models_last_match[of ?ms, unfolded ab prod.case]
  from t t3 obtain i where a: "a = Some i" by (cases a) auto
  with t have "i < 4" "contains (path (?ms ! i)) KICAD_3RD_PARTY"
    "\<forall>k. i < k \<and> k < 4 \<longrightarrow> \<not> contains (path (?ms ! k)) KICAD_3RD_PARTY"
    by simp_all
  with t3 have i: "i = 2"
    by (cases "i < 2"; cases "i = 3") (auto simp: example_defs)
  from t pl obtain j where b: "b = Some j" by (cases b) auto
  with t have "j < 4" "\<forall>k. j < k \<and> k < 4 \<longrightarrow>
      contains (path (?ms ! k)) KICAD_3RD_PARTY \<or> \<not> contains (path (?ms ! k)) KIPRJMOD"
    by simp_all
  with pl have j: "j = 3"
    by (cases "j < 3") auto
  from ab a b i j show ?thesis by simp
qed

subsection \<open>C2: the create path\<close>

text \<open>
  C2: when a record's path contains the third-party token and no record's path contains
  the project token, \<^verbatim>\<open>sync_models\<close> returns \<^verbatim>\<open>True\<close> and appends exactly one record.
  Its path is the project token, \<^verbatim>\<open>/3d-models/\<close> and the basename of the bound third-party
  record's path; its position, scale and rotation are new \<^verbatim>\<open>Coordinate\<close> objects holding
  the third-party record's values; \<^verbatim>\<open>hide\<close> and \<^verbatim>\<open>opacity\<close> are the third-party
  record's. The witness is the scenario of section 8 of the specification:
  \<^verbatim>\<open>${KICAD_3RD_PARTY}/lib/part.step\<close> gives \<^verbatim>\<open>${KIPRJMOD}/3d-models/part.step\<close>.
\<close>

theorem create_correct:
  assumes tp: "\<exists>m \<in> set (models footprint). contains (path m) KICAD_3RD_PARTY"
    and no_pl: "\<forall>m \<in> set (models footprint). \<not> contains (path m) KIPRJMOD"
    and wf: "wf_heap h footprint"
  shows "\<exists>i h' new.
     find_models (models footprint) = (Some i, None) \<and> i < length (models footprint) \<and>
     sync_models h footprint = (True, h', footprint\<lparr>models := models footprint @ [new]\<rparr>) \<and>
     path new = KIPRJMOD @ ''/3d-models/'' @ basename (path (models footprint ! i)) \<and>
     coords h' (pos new) = coords h (pos (models footprint ! i)) \<and>
     coords h' (scale new) = coords h (scale (models footprint ! i)) \<and>
     coords h' (rotate_m new) = coords h (rotate_m (models footprint ! i)) \<and>
     hide new = hide (models footprint ! i) \<and>
     opacity new = opacity (models footprint ! i) \<and>
     next_addr h \<le> pos new \<and> next_addr h \<le> scale new \<and> next_addr h \<le> rotate_m new \<and>
     frame h h'"
proof -
  let ?ms = "models footprint"
  from tp have "fst (find_models ?ms) \<noteq> None"
    by (simp add: find_models_third_party_None)
  then obtain i where fi: "fst (find_models ?ms) = Some i" by auto
  from no_pl have "snd (find_models ?ms) = None"
    by (simp add: find_models_project_None)
  with fi have fm: "find_models ?ms = (Some i, None)"
    by (simp add: prod_eq_iff)
  from find_models_third_party_Some[OF fi] have i: "i < length ?ms" by simp
  obtain h' new where cr: "create_project_model h (?ms ! i) = (h', new)"
    by (cases "create_project_model h (?ms ! i)")
  note c = create_project_model_facts[OF cr]
  from wf_heap_nth[OF wf i] have a: "scale (?ms ! i) < next_addr h"
    "rotate_m (?ms ! i) < next_addr h" by simp_all
  have run: "sync_models h footprint = (True, h', footprint\<lparr>models := ?ms @ [new]\<rparr>)"
    by (simp add: sync_models_create[OF fm] cr)
  have p: "path new = KIPRJMOD @ ''/3d-models/'' @ basename (path (?ms ! i))"
    by (simp add: c(1) KIPRJMOD_def)
  have fresh: "next_addr h \<le> pos new" "next_addr h \<le> scale new" "next_addr h \<le> rotate_m new"
    by (simp_all add: c(4) c(5) c(6))
  from fm i run p c(9) c(10)[OF a(1)] c(11)[OF a(2)] c(2) c(3) fresh c(8)
  show ?thesis by blast
qed

theorem create_correct_witness:
  "sync_models example_heap \<lparr>models = [part_third_party]\<rparr> =
     (True,
      \<lparr>coords = (coords example_heap)
         (4 := \<lparr>X = 1, Y = 2, Z = 3\<rparr>, 5 := \<lparr>X = 1, Y = 1, Z = 1\<rparr>, 6 := \<lparr>X = 0, Y = 0, Z = 0\<rparr>),
       next_addr = 7\<rparr>,
      \<lparr>models = [part_third_party,
         \<lparr>path = ''${KIPRJMOD}/3d-models/part.step'', pos = 4, scale = 5, rotate_m = 6,
          hide = False, opacity = 1\<rparr>]\<rparr>)"
proof -
  let ?fp = "\<lparr>models = [part_third_party]\<rparr>"
  have tp: "\<exists>m \<in> set (models ?fp). contains (path m) KICAD_3RD_PARTY"
    and no_pl: "\<forall>m \<in> set (models ?fp). \<not> contains (path m) KIPRJMOD"
    by (simp_all add: example_defs)
  from create_correct[OF tp no_pl example_create_wf] obtain i h' new where
    i: "i < length (models ?fp)" and
    run: "sync_models example_heap ?fp = (True, h', ?fp\<lparr>models := models ?fp @ [new]\<rparr>)" and
    p: "path new = KIPRJMOD @ ''/3d-models/'' @ basename (path (models ?fp ! i))"
    by blast
  from i have "basename (path (models ?fp ! i)) = ''part.step''"
    by (simp add: basename_def example_defs)
  with p have "path new = ''${KIPRJMOD}/3d-models/part.step''"
    by (simp add: KIPRJMOD_def)
  with run show ?thesis
    by (simp add: example_create_run)
qed

subsection \<open>C3: the update path\<close>

text \<open>
  C3: when one record is bound as third-party and another as project-local,
  \<^verbatim>\<open>sync_models\<close> compares position, scale, rotation, \<^verbatim>\<open>hide\<close> and \<^verbatim>\<open>opacity\<close> by
  equality of their values. A field that is equal keeps what it held (a vector keeps its
  object); a field that differs receives the third-party value (a vector: a new object
  holding it). Nothing else in the footprint changes, and the function returns \<^verbatim>\<open>True\<close>
  exactly when one of the five differed. The witness is the scenario of section 8: only
  the position differs, only the position is written.
\<close>

theorem update_correct:
  assumes tp: "\<exists>m \<in> set (models footprint). contains (path m) KICAD_3RD_PARTY"
    and pl: "\<exists>m \<in> set (models footprint).
               \<not> contains (path m) KICAD_3RD_PARTY \<and> contains (path m) KIPRJMOD"
    and wf: "wf_heap h footprint"
  shows "\<exists>i j modified h' pm'.
     find_models (models footprint) = (Some i, Some j) \<and>
     i < length (models footprint) \<and> j < length (models footprint) \<and> i \<noteq> j \<and>
     sync_models h footprint =
       (modified, h', footprint\<lparr>models := (models footprint)[j := pm']\<rparr>) \<and>
     frame h h' \<and>
     (let tp = models footprint ! i; pm = models footprint ! j in
        path pm' = path pm \<and>
        (if coords h (pos pm) = coords h (pos tp) then pos pm' = pos pm
         else next_addr h \<le> pos pm' \<and> coords h' (pos pm') = coords h (pos tp)) \<and>
        (if coords h (scale pm) = coords h (scale tp) then scale pm' = scale pm
         else next_addr h \<le> scale pm' \<and> coords h' (scale pm') = coords h (scale tp)) \<and>
        (if coords h (rotate_m pm) = coords h (rotate_m tp) then rotate_m pm' = rotate_m pm
         else next_addr h \<le> rotate_m pm' \<and>
              coords h' (rotate_m pm') = coords h (rotate_m tp)) \<and>
        (if hide pm = hide tp then hide pm' = hide pm else hide pm' = hide tp) \<and>
        (if opacity pm = opacity tp then opacity pm' = opacity pm
         else opacity pm' = opacity tp) \<and>
        (modified \<longleftrightarrow>
           coords h (pos pm) \<noteq> coords h (pos tp) \<or>
           coords h (scale pm) \<noteq> coords h (scale tp) \<or>
           coords h (rotate_m pm) \<noteq> coords h (rotate_m tp) \<or>
           hide pm \<noteq> hide tp \<or> opacity pm \<noteq> opacity tp))"
proof -
  let ?ms = "models footprint"
  from tp have "fst (find_models ?ms) \<noteq> None"
    by (simp add: find_models_third_party_None)
  then obtain i where fi: "fst (find_models ?ms) = Some i" by auto
  from pl have "snd (find_models ?ms) \<noteq> None"
    unfolding find_models_project_None by blast
  then obtain j where fj: "snd (find_models ?ms) = Some j" by auto
  from fi fj have fm: "find_models ?ms = (Some i, Some j)"
    by (simp add: prod_eq_iff)
  from find_models_third_party_Some[OF fi] have i: "i < length ?ms" by simp
  from find_models_project_Some[OF fj] have j: "j < length ?ms" by simp
  from fm have ij: "i \<noteq> j" by (rule find_models_distinct)
  let ?tp = "?ms ! i" and ?pm = "?ms ! j"
  obtain m h' pm' where up: "update_project_model h ?tp ?pm = (m, h', pm')"
    by (cases "update_project_model h ?tp ?pm") auto
  from wf_heap_nth[OF wf i] have a: "pos ?tp < next_addr h" "scale ?tp < next_addr h"
    "rotate_m ?tp < next_addr h" by simp_all
  from wf_heap_nth[OF wf j] have b: "pos ?pm < next_addr h" "scale ?pm < next_addr h"
    "rotate_m ?pm < next_addr h" by simp_all
  note u = update_project_model_facts[OF up a b]
  have run: "sync_models h footprint = (m, h', footprint\<lparr>models := ?ms[j := pm']\<rparr>)"
    by (simp add: sync_models_update[OF fm] up)
  have f1: "if coords h (pos ?pm) = coords h (pos ?tp) then pos pm' = pos ?pm
         else next_addr h \<le> pos pm' \<and> coords h' (pos pm') = coords h (pos ?tp)"
    using u(6) u(7) by simp
  have f2: "if coords h (scale ?pm) = coords h (scale ?tp) then scale pm' = scale ?pm
         else next_addr h \<le> scale pm' \<and> coords h' (scale pm') = coords h (scale ?tp)"
    using u(8) u(9) by simp
  have f3: "if coords h (rotate_m ?pm) = coords h (rotate_m ?tp) then rotate_m pm' = rotate_m ?pm
         else next_addr h \<le> rotate_m pm' \<and> coords h' (rotate_m pm') = coords h (rotate_m ?tp)"
    using u(10) u(11) by simp
  have f4: "if hide ?pm = hide ?tp then hide pm' = hide ?pm else hide pm' = hide ?tp"
    using u(2) by simp
  have f5: "if opacity ?pm = opacity ?tp then opacity pm' = opacity ?pm
         else opacity pm' = opacity ?tp"
    using u(3) by simp
  have "let tp = ?tp; pm = ?pm in
        path pm' = path pm \<and>
        (if coords h (pos pm) = coords h (pos tp) then pos pm' = pos pm
         else next_addr h \<le> pos pm' \<and> coords h' (pos pm') = coords h (pos tp)) \<and>
        (if coords h (scale pm) = coords h (scale tp) then scale pm' = scale pm
         else next_addr h \<le> scale pm' \<and> coords h' (scale pm') = coords h (scale tp)) \<and>
        (if coords h (rotate_m pm) = coords h (rotate_m tp) then rotate_m pm' = rotate_m pm
         else next_addr h \<le> rotate_m pm' \<and>
              coords h' (rotate_m pm') = coords h (rotate_m tp)) \<and>
        (if hide pm = hide tp then hide pm' = hide pm else hide pm' = hide tp) \<and>
        (if opacity pm = opacity tp then opacity pm' = opacity pm
         else opacity pm' = opacity tp) \<and>
        (m \<longleftrightarrow>
           coords h (pos pm) \<noteq> coords h (pos tp) \<or>
           coords h (scale pm) \<noteq> coords h (scale tp) \<or>
           coords h (rotate_m pm) \<noteq> coords h (rotate_m tp) \<or>
           hide pm \<noteq> hide tp \<or> opacity pm \<noteq> opacity tp)"
    unfolding Let_def using u(1) f1 f2 f3 f4 f5 u(5) by blast
  with fm i j ij run u(4) show ?thesis by blast
qed

theorem update_correct_witness:
  "sync_models example_heap \<lparr>models = [moved_third_party, part_project]\<rparr> =
     (True,
      \<lparr>coords = (coords example_heap)(4 := \<lparr>X = 5, Y = 0, Z = 0\<rparr>), next_addr = 5\<rparr>,
      \<lparr>models = [moved_third_party, part_project\<lparr>pos := 4\<rparr>]\<rparr>) \<and>
   coords example_heap (pos moved_third_party) = \<lparr>X = 5, Y = 0, Z = 0\<rparr> \<and>
   coords example_heap (pos part_project) = \<lparr>X = 0, Y = 0, Z = 0\<rparr>"
proof -
  let ?fp = "\<lparr>models = [moved_third_party, part_project]\<rparr>"
  have tp: "\<exists>m \<in> set (models ?fp). contains (path m) KICAD_3RD_PARTY"
    by (simp add: example_defs)
  have pl: "\<exists>m \<in> set (models ?fp).
      \<not> contains (path m) KICAD_3RD_PARTY \<and> contains (path m) KIPRJMOD"
    by (simp add: example_defs)
  have wf: "wf_heap example_heap ?fp"
    by (simp add: wf_heap_def example_defs)
  from update_correct[OF tp pl wf] obtain i j modified h' pm' where
    fm: "find_models (models ?fp) = (Some i, Some j)" and
    run: "sync_models example_heap ?fp = (modified, h', ?fp\<lparr>models := (models ?fp)[j := pm']\<rparr>)"
    by blast
  have "find_models (models ?fp) = (Some 0, Some 1)"
    by (simp add: find_models_def find_step_def example_defs)
  with fm have ij: "i = 0" "j = 1" by simp_all
  have up: "update_project_model example_heap moved_third_party part_project =
     (True, \<lparr>coords = (coords example_heap)(4 := \<lparr>X = 5, Y = 0, Z = 0\<rparr>), next_addr = 5\<rparr>,
      part_project\<lparr>pos := 4\<rparr>)"
    by (simp add: update_project_model_def sync_pos_def sync_scale_def sync_rotate_def
        sync_hide_def sync_opacity_def copy_Coordinate_def new_Coordinate_def example_defs)
  from fm ij have "sync_models example_heap ?fp =
     (True, \<lparr>coords = (coords example_heap)(4 := \<lparr>X = 5, Y = 0, Z = 0\<rparr>), next_addr = 5\<rparr>,
      \<lparr>models = [moved_third_party, part_project\<lparr>pos := 4\<rparr>]\<rparr>)"
    by (simp add: sync_models_update up)
  moreover have "coords example_heap (pos moved_third_party) = \<lparr>X = 5, Y = 0, Z = 0\<rparr>"
    "coords example_heap (pos part_project) = \<lparr>X = 0, Y = 0, Z = 0\<rparr>"
    by (simp_all add: example_defs)
  ultimately show ?thesis by simp
qed

subsection \<open>C4: a second run\<close>

text \<open>
  C4 as stated (a second run always returns \<^verbatim>\<open>False\<close>) fails. The third-party path
  \<^verbatim>\<open>${KICAD_3RD_PARTY}part.step\<close> has no separator, so its basename is the whole path and
  the created path contains the third-party token: the second run binds the created record
  as third-party, finds no project record, and appends another one.
\<close>

theorem second_run_counterexample:
  "sync_models example_heap \<lparr>models = [bare_third_party]\<rparr> =
     (True,
      \<lparr>coords = (coords example_heap)
         (4 := \<lparr>X = 1, Y = 2, Z = 3\<rparr>, 5 := \<lparr>X = 1, Y = 1, Z = 1\<rparr>, 6 := \<lparr>X = 0, Y = 0, Z = 0\<rparr>),
       next_addr = 7\<rparr>,
      \<lparr>models = [bare_third_party,
         \<lparr>path = ''${KIPRJMOD}/3d-models/${KICAD_3RD_PARTY}part.step'', pos = 4, scale = 5,
          rotate_m = 6, hide = False, opacity = 1\<rparr>]\<rparr>) \<and>
   sync_models
      \<lparr>coords = (coords example_heap)
         (4 := \<lparr>X = 1, Y = 2, Z = 3\<rparr>, 5 := \<lparr>X = 1, Y = 1, Z = 1\<rparr>, 6 := \<lparr>X = 0, Y = 0, Z = 0\<rparr>),
       next_addr = 7\<rparr>
      \<lparr>models = [bare_third_party,
         \<lparr>path = ''${KIPRJMOD}/3d-models/${KICAD_3RD_PARTY}part.step'', pos = 4, scale = 5,
          rotate_m = 6, hide = False, opacity = 1\<rparr>]\<rparr> =
     (True,
      \<lparr>coords = (coords example_heap)
         (4 := \<lparr>X = 1, Y = 2, Z = 3\<rparr>, 5 := \<lparr>X = 1, Y = 1, Z = 1\<rparr>, 6 := \<lparr>X = 0, Y = 0, Z = 0\<rparr>,
          7 := \<lparr>X = 1, Y = 2, Z = 3\<rparr>, 8 := \<lparr>X = 1, Y = 1, Z = 1\<rparr>, 9 := \<lparr>X = 0, Y = 0, Z = 0\<rparr>),
       next_addr = 10\<rparr>,
      \<lparr>models = [bare_third_party,
         \<lparr>path = ''${KIPRJMOD}/3d-models/${KICAD_3RD_PARTY}part.step'', pos = 4, scale = 5,
          rotate_m = 6, hide = False, opacity = 1\<rparr>,
         \<lparr>path = ''${KIPRJMOD}/3d-models/${KICAD_3RD_PARTY}part.step'', pos = 7, scale = 8,
          rotate_m = 9, hide = False, opacity = 1\<rparr>]\<rparr>)"
  by (simp add: sync_models_def find_models_def find_step_def create_project_model_def
      copy_Coordinate_def new_Coordinate_def basename_def example_defs)

text \<open>
  C4, amended: when the first run does not take the create path from a third-party record
  whose file name (the basename of its path) contains the third-party token, a second
  \<^verbatim>\<open>sync_models\<close> on the footprint the first one left returns \<^verbatim>\<open>False\<close> and changes
  nothing.
\<close>

theorem second_run_unmodified:
  assumes wf: "wf_heap h footprint"
    and name: "\<forall>i. find_models (models footprint) = (Some i, None) \<longrightarrow>
        \<not> contains (basename (path (models footprint ! i))) KICAD_3RD_PARTY"
    and run: "sync_models h footprint = (modified, h', footprint')"
  shows "sync_models h' footprint' = (False, h', footprint')"
proof (cases "find_models (models footprint)")
  case (Pair a b)
  show ?thesis
  proof (cases a)
    case None
    with Pair have "fst (find_models (models footprint)) = None" by simp
    from sync_models_no_third_party[OF this, of h] run show ?thesis by simp
  next
    case (Some i)
    show ?thesis
    proof (cases b)
      case None
      with Pair Some have fm: "find_models (models footprint) = (Some i, None)" by simp
      with name have "\<not> contains (basename (path (models footprint ! i))) KICAD_3RD_PARTY"
        by simp
      with wf fm show ?thesis using run by (rule second_run_after_create)
    next
      case (Some j)
      with Pair \<open>a = Some i\<close> have "find_models (models footprint) = (Some i, Some j)" by simp
      with wf show ?thesis using run by (rule second_run_after_update)
    qed
  qed
qed

theorem second_run_unmodified_witness:
  "sync_models example_heap \<lparr>models = [part_third_party]\<rparr> =
     (True,
      \<lparr>coords = (coords example_heap)
         (4 := \<lparr>X = 1, Y = 2, Z = 3\<rparr>, 5 := \<lparr>X = 1, Y = 1, Z = 1\<rparr>, 6 := \<lparr>X = 0, Y = 0, Z = 0\<rparr>),
       next_addr = 7\<rparr>,
      \<lparr>models = [part_third_party,
         \<lparr>path = ''${KIPRJMOD}/3d-models/part.step'', pos = 4, scale = 5, rotate_m = 6,
          hide = False, opacity = 1\<rparr>]\<rparr>) \<and>
   sync_models
      \<lparr>coords = (coords example_heap)
         (4 := \<lparr>X = 1, Y = 2, Z = 3\<rparr>, 5 := \<lparr>X = 1, Y = 1, Z = 1\<rparr>, 6 := \<lparr>X = 0, Y = 0, Z = 0\<rparr>),
       next_addr = 7\<rparr>
      \<lparr>models = [part_third_party,
         \<lparr>path = ''${KIPRJMOD}/3d-models/part.step'', pos = 4, scale = 5, rotate_m = 6,
          hide = False, opacity = 1\<rparr>]\<rparr> =
     (False,
      \<lparr>coords = (coords example_heap)
         (4 := \<lparr>X = 1, Y = 2, Z = 3\<rparr>, 5 := \<lparr>X = 1, Y = 1, Z = 1\<rparr>, 6 := \<lparr>X = 0, Y = 0, Z = 0\<rparr>),
       next_addr = 7\<rparr>,
      \<lparr>models = [part_third_party,
         \<lparr>path = ''${KIPRJMOD}/3d-models/part.step'', pos = 4, scale = 5, rotate_m = 6,
          hide = False, opacity = 1\<rparr>]\<rparr>)"
proof -
  let ?fp = "\<lparr>models = [part_third_party]\<rparr>"
  have name: "\<forall>i. find_models (models ?fp) = (Some i, None) \<longrightarrow>
        \<not> contains (basename (path (models ?fp ! i))) KICAD_3RD_PARTY"
    by (simp add: example_create_find) (simp add: basename_def example_defs)
  from second_run_unmodified[OF example_create_wf name example_create_run] example_create_run
  show ?thesis by simp
qed

subsection \<open>C5: no third-party record\<close>

text \<open>
  C5: when no record's path contains the third-party token (the empty collection
  included), \<^verbatim>\<open>sync_models\<close> returns \<^verbatim>\<open>False\<close> and leaves the footprint and the store
  as they were.
\<close>

theorem no_third_party_unmodified:
  assumes "\<forall>m \<in> set (models footprint). \<not> contains (path m) KICAD_3RD_PARTY"
  shows "sync_models h footprint = (False, h, footprint)"
  using assms by (simp add: sync_models_no_third_party find_models_third_party_None)

theorem no_third_party_unmodified_witness:
  "\<not> contains (path part_project) KICAD_3RD_PARTY \<and>
   sync_models example_heap \<lparr>models = [part_project]\<rparr> =
     (False, example_heap, \<lparr>models = [part_project]\<rparr>) \<and>
   sync_models example_heap \<lparr>models = []\<rparr> = (False, example_heap, \<lparr>models = []\<rparr>)"
proof -
  have no_tp: "\<not> contains (path part_project) KICAD_3RD_PARTY"
    by (simp add: example_defs)
  then have one: "\<forall>m \<in> set (models \<lparr>models = [part_project]\<rparr>).
      \<not> contains (path m) KICAD_3RD_PARTY"
    by simp
  have none: "\<forall>m \<in> set (models \<lparr>models = []\<rparr>). \<not> contains (path m) KICAD_3RD_PARTY"
    by simp
  from no_tp no_third_party_unmodified[OF one] no_third_party_unmodified[OF none]
  show ?thesis by blast
qed

subsection \<open>C6: the third-party record is read only\<close>

text \<open>
  C6: on every call that binds a third-party record (create path or update path), that
  record is afterwards what it was: the same fields, the same three \<^verbatim>\<open>Coordinate\<close>
  objects, holding the same values. Every vector reference of the resulting footprint is
  either the reference that was there before the call or a new object, allocated by this
  call, which is none of the third-party record's objects: a copied vector is never a
  shared reference.
\<close>

theorem third_party_not_mutated:
  assumes wf: "wf_heap h footprint"
    and tp: "fst (find_models (models footprint)) = Some i"
    and run: "sync_models h footprint = (modified, h', footprint')"
  shows "i < length (models footprint') \<and>
     models footprint' ! i = models footprint ! i \<and>
     coords h' (pos (models footprint ! i)) = coords h (pos (models footprint ! i)) \<and>
     coords h' (scale (models footprint ! i)) = coords h (scale (models footprint ! i)) \<and>
     coords h' (rotate_m (models footprint ! i)) = coords h (rotate_m (models footprint ! i)) \<and>
     (\<forall>k < length (models footprint').
        let tp = models footprint ! i; m' = models footprint' ! k in
          (k < length (models footprint) \<and> pos m' = pos (models footprint ! k) \<or>
           next_addr h \<le> pos m' \<and> pos m' \<notin> {pos tp, scale tp, rotate_m tp}) \<and>
          (k < length (models footprint) \<and> scale m' = scale (models footprint ! k) \<or>
           next_addr h \<le> scale m' \<and> scale m' \<notin> {pos tp, scale tp, rotate_m tp}) \<and>
          (k < length (models footprint) \<and> rotate_m m' = rotate_m (models footprint ! k) \<or>
           next_addr h \<le> rotate_m m' \<and> rotate_m m' \<notin> {pos tp, scale tp, rotate_m tp}))"
proof -
  let ?ms = "models footprint"
  let ?tp = "?ms ! i"
  from find_models_third_party_Some[OF tp] have i: "i < length ?ms" by simp
  from wf_heap_nth[OF wf i] have a: "pos ?tp < next_addr h" "scale ?tp < next_addr h"
    "rotate_m ?tp < next_addr h" by simp_all
  note fresh = fresh_not_third_party[OF a]
  show ?thesis
  proof (cases "snd (find_models ?ms)")
    case None
    with tp have fm: "find_models ?ms = (Some i, None)"
      by (simp add: prod_eq_iff)
    obtain h3 new where cr: "create_project_model h ?tp = (h3, new)"
      by (cases "create_project_model h ?tp")
    note c = create_project_model_facts[OF cr]
    from run fm cr have "h' = h3" "footprint' = footprint\<lparr>models := ?ms @ [new]\<rparr>"
      by (simp_all add: sync_models_create)
    then have res: "h' = h3" "models footprint' = ?ms @ [new]"
      by simp_all
    have same: "coords h' (pos ?tp) = coords h (pos ?tp)"
      "coords h' (scale ?tp) = coords h (scale ?tp)"
      "coords h' (rotate_m ?tp) = coords h (rotate_m ?tp)"
      using frame_coords[OF c(8)] a by (simp_all add: res)
    have new: "next_addr h \<le> pos new" "next_addr h \<le> scale new" "next_addr h \<le> rotate_m new"
      by (simp_all add: c(4) c(5) c(6))
    have each: "(k < length ?ms \<and> pos ((?ms @ [new]) ! k) = pos (?ms ! k) \<or>
           next_addr h \<le> pos ((?ms @ [new]) ! k) \<and>
           pos ((?ms @ [new]) ! k) \<notin> {pos ?tp, scale ?tp, rotate_m ?tp}) \<and>
          (k < length ?ms \<and> scale ((?ms @ [new]) ! k) = scale (?ms ! k) \<or>
           next_addr h \<le> scale ((?ms @ [new]) ! k) \<and>
           scale ((?ms @ [new]) ! k) \<notin> {pos ?tp, scale ?tp, rotate_m ?tp}) \<and>
          (k < length ?ms \<and> rotate_m ((?ms @ [new]) ! k) = rotate_m (?ms ! k) \<or>
           next_addr h \<le> rotate_m ((?ms @ [new]) ! k) \<and>
           rotate_m ((?ms @ [new]) ! k) \<notin> {pos ?tp, scale ?tp, rotate_m ?tp})"
      if k: "k < length (?ms @ [new])" for k
    proof (cases "k < length ?ms")
      case True
      then show ?thesis by (simp add: nth_append)
    next
      case False
      with k have "(?ms @ [new]) ! k = new" by (simp add: nth_append less_Suc_eq)
      with new fresh[OF new(1)] fresh[OF new(2)] fresh[OF new(3)] show ?thesis
        by simp
    qed
    from i have "i < length (models footprint')" "models footprint' ! i = ?tp"
      by (simp_all add: res nth_append)
    with same each show ?thesis
      unfolding Let_def res by blast
  next
    case (Some j)
    with tp have fm: "find_models ?ms = (Some i, Some j)"
      by (simp add: prod_eq_iff)
    let ?pm = "?ms ! j"
    obtain m h1 pm' where up: "update_project_model h ?tp ?pm = (m, h1, pm')"
      by (cases "update_project_model h ?tp ?pm") auto
    from run fm up have "h' = h1" "footprint' = footprint\<lparr>models := ?ms[j := pm']\<rparr>"
      by (simp_all add: sync_models_update)
    then have res: "h' = h1" "models footprint' = ?ms[j := pm']"
      by simp_all
    from find_models_project_Some[OF Some] have j: "j < length ?ms" by simp
    from fm have ij: "i \<noteq> j" by (rule find_models_distinct)
    from wf_heap_nth[OF wf j] have b: "pos ?pm < next_addr h" "scale ?pm < next_addr h"
      "rotate_m ?pm < next_addr h" by simp_all
    note u = update_project_model_facts[OF up a b]
    have same: "coords h' (pos ?tp) = coords h (pos ?tp)"
      "coords h' (scale ?tp) = coords h (scale ?tp)"
      "coords h' (rotate_m ?tp) = coords h (rotate_m ?tp)"
      using frame_coords[OF u(4)] a by (simp_all add: res)
    have p: "pos pm' = pos ?pm \<or>
        next_addr h \<le> pos pm' \<and> pos pm' \<notin> {pos ?tp, scale ?tp, rotate_m ?tp}"
      using u(6) u(7) fresh[of "pos pm'"] by blast
    have s: "scale pm' = scale ?pm \<or>
        next_addr h \<le> scale pm' \<and> scale pm' \<notin> {pos ?tp, scale ?tp, rotate_m ?tp}"
      using u(8) u(9) fresh[of "scale pm'"] by blast
    have r: "rotate_m pm' = rotate_m ?pm \<or>
        next_addr h \<le> rotate_m pm' \<and> rotate_m pm' \<notin> {pos ?tp, scale ?tp, rotate_m ?tp}"
      using u(10) u(11) fresh[of "rotate_m pm'"] by blast
    have each: "(k < length ?ms \<and> pos (?ms[j := pm'] ! k) = pos (?ms ! k) \<or>
           next_addr h \<le> pos (?ms[j := pm'] ! k) \<and>
           pos (?ms[j := pm'] ! k) \<notin> {pos ?tp, scale ?tp, rotate_m ?tp}) \<and>
          (k < length ?ms \<and> scale (?ms[j := pm'] ! k) = scale (?ms ! k) \<or>
           next_addr h \<le> scale (?ms[j := pm'] ! k) \<and>
           scale (?ms[j := pm'] ! k) \<notin> {pos ?tp, scale ?tp, rotate_m ?tp}) \<and>
          (k < length ?ms \<and> rotate_m (?ms[j := pm'] ! k) = rotate_m (?ms ! k) \<or>
           next_addr h \<le> rotate_m (?ms[j := pm'] ! k) \<and>
           rotate_m (?ms[j := pm'] ! k) \<notin> {pos ?tp, scale ?tp, rotate_m ?tp})"
      if k: "k < length (?ms[j := pm'])" for k
    proof (cases "k = j")
      case True
      with j have "?ms[j := pm'] ! k = pm'" "?ms ! k = ?pm" "k < length ?ms" by simp_all
      with p s r show ?thesis by simp
    next
      case False
      with k show ?thesis by simp
    qed
    from i ij have "i < length (models footprint')" "models footprint' ! i = ?tp"
      by (simp_all add: res)
    with same each show ?thesis
      unfolding Let_def res by blast
  qed
qed

theorem third_party_not_mutated_witness:
  "models (snd (snd (sync_models example_heap \<lparr>models = [moved_third_party, part_project]\<rparr>))) ! 0
     = moved_third_party \<and>
   coords (fst (snd (sync_models example_heap \<lparr>models = [moved_third_party, part_project]\<rparr>)))
     (pos moved_third_party) = \<lparr>X = 5, Y = 0, Z = 0\<rparr> \<and>
   pos (models (snd (snd (sync_models example_heap
     \<lparr>models = [moved_third_party, part_project]\<rparr>))) ! 1) \<noteq> pos moved_third_party"
proof -
  let ?fp = "\<lparr>models = [moved_third_party, part_project]\<rparr>"
  have tp: "fst (find_models (models ?fp)) = Some 0"
    by (simp add: example_update_find)
  note t = third_party_not_mutated[OF example_update_wf tp example_update_run]
  from t have "models \<lparr>models = [moved_third_party, part_project\<lparr>pos := 4\<rparr>]\<rparr> ! 0
      = models ?fp ! 0" by blast
  moreover from t have "coords \<lparr>coords = (coords example_heap)(4 := \<lparr>X = 5, Y = 0, Z = 0\<rparr>),
        next_addr = 5\<rparr> (pos (models ?fp ! 0)) = coords example_heap (pos (models ?fp ! 0))"
    by blast
  ultimately show ?thesis
    by (simp add: example_update_run) (simp add: example_defs)
qed

subsection \<open>C7: the exit status\<close>

text \<open>
  C7: the exit status of \<^verbatim>\<open>main\<close> is 1 exactly when \<^verbatim>\<open>dry_run\<close> is false and the
  counter \<^verbatim>\<open>modified_files\<close> is at least 1, and 0 exactly when the counter is 0 or
  \<^verbatim>\<open>dry_run\<close> is true (the early return on an empty file list included). The counter is
  the second number of the summary.
\<close>

theorem main_exit_status:
  "(let footprint_files = find_footprint_files walk fs
          (case github_workspace of Some d \<Rightarrow> d | None \<Rightarrow> directory);
        modified_files = fst (process_files from_file to_file fs footprint_files dry_run 0);
        r = main walk from_file to_file github_workspace directory dry_run fs
    in exit_status r = (if 0 < modified_files \<and> \<not> dry_run then 1 else 0) \<and>
       (exit_status r = 0) = (modified_files = 0 \<or> dry_run) \<and>
       (exit_status r = 1) = (\<not> dry_run \<and> 1 \<le> modified_files) \<and>
       summary r = (if footprint_files = [] then None
                    else Some (length footprint_files, modified_files)))"
  by (auto simp: main_def Let_def split: prod.splits)

theorem main_exit_status_witness:
  "exit_status (main example_walk example_from_file example_to_file None ''.'' False example_fs) = 1 \<and>
   exit_status (main example_walk example_from_file example_to_file None ''.'' True example_fs) = 0"
  using main_exit_status[where walk = example_walk and fs = example_fs
      and github_workspace = None and directory = "''.''" and from_file = example_from_file
      and to_file = example_to_file and dry_run = False]
    main_exit_status[where walk = example_walk and fs = example_fs
      and github_workspace = None and directory = "''.''" and from_file = example_from_file
      and to_file = example_to_file and dry_run = True]
  by (simp add: example_main example_main_dry)

subsection \<open>C8: a failing file\<close>

text \<open>
  C8 as stated (nothing is written for a file whose save fails) fails. The \<^verbatim>\<open>except\<close>
  clause of lines 130 to 132 catches the exception and undoes nothing: with a
  \<^verbatim>\<open>to_file\<close> that empties the file and then raises, the valid document of the examples
  is counted as not modified and is left malformed on disk.
\<close>

theorem save_failure_counterexample:
  "example_from_file example_fs ''./good.kicad_mod'' =
     Inr (example_heap, \<lparr>models = [moved_third_party, part_project]\<rparr>) \<and>
   sync_models example_heap \<lparr>models = [moved_third_party, part_project]\<rparr> =
     (True, synced_heap, synced_footprint) \<and>
   truncating_to_file example_fs (synced_heap, synced_footprint) ''./good.kicad_mod'' =
     (Some ''disk full'', example_fs(''./good.kicad_mod'' := Malformed)) \<and>
   process_footprint_file example_from_file truncating_to_file example_fs
       ''./good.kicad_mod'' False =
     (False, example_fs(''./good.kicad_mod'' := Malformed)) \<and>
   (example_fs(''./good.kicad_mod'' := Malformed)) ''./good.kicad_mod'' \<noteq>
     example_fs ''./good.kicad_mod''"
  by (simp add: process_footprint_file_def example_from_file_def example_fs_def
      example_update_run truncating_to_file_def synced_heap_def synced_footprint_def)

text \<open>
  C8, amended: a file whose load raises, or whose save raises, is skipped:
  \<^verbatim>\<open>process_footprint_file\<close> returns \<^verbatim>\<open>False\<close>, the file is in the total of the summary
  and not in the modified count, and the loop goes on with the remaining files from the
  same counter. For a load failure nothing is written: the file system is unchanged. For
  a save failure the pipeline writes nothing of its own: the file system is the one the
  failing \<^verbatim>\<open>to_file\<close> left (\<open>fs'\<close> below), and the remaining files are processed from
  it. The witness is the directory of the claim: one malformed document and one valid
  document needing an update give the summary (2, 1), and the valid document is saved.
\<close>

theorem failure_isolation:
  assumes before: "process_files from_file to_file fs0 pre dry_run 0 = (n, fs)"
    and failure:
      "(\<exists>e. from_file fs filepath = Inl e) \<and> fs' = fs \<or>
       (\<exists>h footprint h' footprint' e.
          from_file fs filepath = Inr (h, footprint) \<and>
          sync_models h footprint = (True, h', footprint') \<and>
          dry_run = False \<and> to_file fs (h', footprint') filepath = (Some e, fs'))"
    and found: "find_footprint_files walk fs0
        (case github_workspace of Some d \<Rightarrow> d | None \<Rightarrow> directory) = pre @ filepath # rest"
  shows "process_footprint_file from_file to_file fs filepath dry_run = (False, fs') \<and>
     ((\<exists>e. from_file fs filepath = Inl e) \<longrightarrow> fs' = fs) \<and>
     process_files from_file to_file fs0 (pre @ filepath # rest) dry_run 0 =
       process_files from_file to_file fs' rest dry_run n \<and>
     summary (main walk from_file to_file github_workspace directory dry_run fs0) =
       Some (length pre + 1 + length rest,
             fst (process_files from_file to_file fs' rest dry_run n)) \<and>
     fst (process_files from_file to_file fs' rest dry_run n) \<le> length pre + length rest \<and>
     files (main walk from_file to_file github_workspace directory dry_run fs0) =
       snd (process_files from_file to_file fs' rest dry_run n)"
proof -
  from failure have skip:
    "process_footprint_file from_file to_file fs filepath dry_run = (False, fs')"
  proof
    assume "(\<exists>e. from_file fs filepath = Inl e) \<and> fs' = fs"
    then show ?thesis
      using process_footprint_file_load_failure[of from_file fs filepath _ to_file dry_run]
      by blast
  next
    assume "\<exists>h footprint h' footprint' e.
          from_file fs filepath = Inr (h, footprint) \<and>
          sync_models h footprint = (True, h', footprint') \<and>
          dry_run = False \<and> to_file fs (h', footprint') filepath = (Some e, fs')"
    then show ?thesis
      using process_footprint_file_save_failure[of from_file fs filepath _ _ _ _ to_file _ fs']
      by blast
  qed
  from failure have load: "(\<exists>e. from_file fs filepath = Inl e) \<longrightarrow> fs' = fs"
    by auto
  have run: "process_files from_file to_file fs0 (pre @ filepath # rest) dry_run 0 =
       process_files from_file to_file fs' rest dry_run n"
    by (simp add: process_files_append before skip)
  obtain k fs'' where rest: "process_files from_file to_file fs' rest dry_run n = (k, fs'')"
    by (cases "process_files from_file to_file fs' rest dry_run n")
  from process_files_count[of 0 from_file to_file fs0 pre dry_run] before
  have "n \<le> length pre" by simp
  moreover from process_files_count[of n from_file to_file fs' rest dry_run] rest
  have "k \<le> n + length rest" by simp
  ultimately have le: "k \<le> length pre + length rest" by simp
  have "main walk from_file to_file github_workspace directory dry_run fs0 =
      \<lparr>exit_status = (if k > 0 \<and> \<not> dry_run then 1 else 0),
       summary = Some (length pre + 1 + length rest, k), files = fs''\<rparr>"
    by (simp add: main_def found run rest)
  with skip load run rest le show ?thesis by simp
qed

theorem failure_isolation_witness:
  "main example_walk example_from_file example_to_file None ''.'' False example_fs =
     \<lparr>exit_status = 1, summary = Some (2, 1),
      files = example_fs(''./good.kicad_mod'' := Document synced_heap synced_footprint)\<rparr> \<and>
   process_footprint_file example_from_file example_to_file example_fs ''./bad.kicad_mod'' False
     = (False, example_fs) \<and>
   process_footprint_file example_from_file example_to_file example_fs ''./locked.kicad_mod'' False
     = (False, example_fs) \<and>
   process_files example_from_file truncating_to_file example_fs
       [''./good.kicad_mod'', ''./bad.kicad_mod''] False 0
     = (0, example_fs(''./good.kicad_mod'' := Malformed))"
proof -
  have before: "process_files example_from_file to_file example_fs [] False 0
      = (0, example_fs)" for to_file :: "(string \<Rightarrow> document) \<Rightarrow> heap \<times> Footprint \<Rightarrow> string \<Rightarrow>
        string option \<times> (string \<Rightarrow> document)"
    by simp
  have bad: "(\<exists>e. example_from_file example_fs ''./bad.kicad_mod'' = Inl e) \<and>
       example_fs = example_fs \<or>
       (\<exists>h footprint h' footprint' e.
          example_from_file example_fs ''./bad.kicad_mod'' = Inr (h, footprint) \<and>
          sync_models h footprint = (True, h', footprint') \<and>
          False = False \<and>
          example_to_file example_fs (h', footprint') ''./bad.kicad_mod'' = (Some e, example_fs))"
    by (simp add: example_from_file_def example_fs_def)
  have found: "find_footprint_files example_walk example_fs
        (case None of Some d \<Rightarrow> d | None \<Rightarrow> ''.'') = [] @ ''./bad.kicad_mod'' # [''./good.kicad_mod'']"
    by (simp add: example_files)
  note t1 = failure_isolation[where to_file = example_to_file and fs' = example_fs
      and pre = "[]" and filepath = "''./bad.kicad_mod''" and rest = "[''./good.kicad_mod'']",
      OF before bad found]
  have locked: "(\<exists>e. example_from_file example_fs ''./locked.kicad_mod'' = Inl e) \<and>
       example_fs = example_fs \<or>
       (\<exists>h footprint h' footprint' e.
          example_from_file example_fs ''./locked.kicad_mod'' = Inr (h, footprint) \<and>
          sync_models h footprint = (True, h', footprint') \<and>
          False = False \<and>
          example_to_file example_fs (h', footprint') ''./locked.kicad_mod'' = (Some e, example_fs))"
    by (simp add: example_from_file_def example_fs_def example_create_run example_to_file_def)
  have found2: "find_footprint_files (\<lambda>fs d. [(d, [], [''locked.kicad_mod''])]) example_fs
        (case None of Some d \<Rightarrow> d | None \<Rightarrow> ''.'') = [] @ ''./locked.kicad_mod'' # []"
    by (simp add: find_footprint_files_def path_join_def suffix_def)
  note t2 = failure_isolation[where to_file = example_to_file and fs' = example_fs
      and pre = "[]" and filepath = "''./locked.kicad_mod''" and rest = "[]",
      OF before locked found2]
  have truncated: "(\<exists>e. example_from_file example_fs ''./good.kicad_mod'' = Inl e) \<and>
       example_fs(''./good.kicad_mod'' := Malformed) = example_fs \<or>
       (\<exists>h footprint h' footprint' e.
          example_from_file example_fs ''./good.kicad_mod'' = Inr (h, footprint) \<and>
          sync_models h footprint = (True, h', footprint') \<and>
          False = False \<and>
          truncating_to_file example_fs (h', footprint') ''./good.kicad_mod'' =
            (Some e, example_fs(''./good.kicad_mod'' := Malformed)))"
    by (simp add: example_from_file_def example_fs_def example_update_run
        truncating_to_file_def)
  have found3: "find_footprint_files
        (\<lambda>fs d. [(d, [], [''good.kicad_mod'', ''bad.kicad_mod''])]) example_fs
        (case None of Some d \<Rightarrow> d | None \<Rightarrow> ''.'') =
        [] @ ''./good.kicad_mod'' # [''./bad.kicad_mod'']"
    by (simp add: find_footprint_files_def path_join_def suffix_def)
  note t3 = failure_isolation[where to_file = truncating_to_file
      and fs' = "example_fs(''./good.kicad_mod'' := Malformed)"
      and pre = "[]" and filepath = "''./good.kicad_mod''" and rest = "[''./bad.kicad_mod'']",
      OF before truncated found3]
  have rest: "process_files example_from_file example_to_file example_fs [''./good.kicad_mod''] False 0
     = (1, example_fs(''./good.kicad_mod'' := Document synced_heap synced_footprint))"
    by (simp add: example_process_good)
  have rest3: "process_files example_from_file truncating_to_file
      (example_fs(''./good.kicad_mod'' := Malformed)) [''./bad.kicad_mod''] False 0
     = (0, example_fs(''./good.kicad_mod'' := Malformed))"
    by (simp add: process_footprint_file_def example_from_file_def example_fs_def)
  from t1[unfolded rest] have "summary (main example_walk example_from_file example_to_file None ''.'' False example_fs)
      = Some (2, 1)"
    and "files (main example_walk example_from_file example_to_file None ''.'' False example_fs)
      = example_fs(''./good.kicad_mod'' := Document synced_heap synced_footprint)"
    and "process_footprint_file example_from_file example_to_file example_fs ''./bad.kicad_mod'' False
     = (False, example_fs)"
    by simp_all
  moreover from t2 have "process_footprint_file example_from_file example_to_file example_fs
      ''./locked.kicad_mod'' False = (False, example_fs)"
    by simp
  moreover have "process_files example_from_file truncating_to_file
      example_fs [''./good.kicad_mod'', ''./bad.kicad_mod''] False 0
     = (0, example_fs(''./good.kicad_mod'' := Malformed))"
    using t3[THEN conjunct2, THEN conjunct2, THEN conjunct1, unfolded rest3 append_Nil]
    by (rule trans[OF _ refl])
  moreover have "exit_status (main example_walk example_from_file example_to_file None ''.'' False
      example_fs) = 1"
    by (simp add: example_main)
  ultimately show ?thesis
    by (cases "main example_walk example_from_file example_to_file None ''.'' False example_fs")
      simp
qed

subsection \<open>C9: dry run\<close>

text \<open>
  C9: for a file that loads and that \<^verbatim>\<open>sync_models\<close> modifies, a dry run counts the file
  as modified and leaves the file system as it was; no dry run, whatever the files,
  changes the file system. With \<^verbatim>\<open>dry_run\<close> false the synchronised footprint is passed
  to \<^verbatim>\<open>to_file\<close> with the path it was loaded from: the result is the file system
  \<^verbatim>\<open>to_file\<close> leaves, and the file is counted when \<^verbatim>\<open>to_file\<close> did not raise.
\<close>

theorem dry_run_no_save:
  assumes load: "from_file fs filepath = Inr (h, footprint)"
    and sync: "sync_models h footprint = (True, h', footprint')"
  shows "process_footprint_file from_file to_file fs filepath True = (True, fs) \<and>
     process_files from_file to_file fs (filepath # rest) True n =
       process_files from_file to_file fs rest True (n + 1) \<and>
     snd (process_files from_file to_file fs ps True n) = fs \<and>
     files (main walk from_file to_file github_workspace directory True fs) = fs \<and>
     process_footprint_file from_file to_file fs filepath False =
       (fst (to_file fs (h', footprint') filepath) = None,
        snd (to_file fs (h', footprint') filepath))"
proof -
  have dry: "process_footprint_file from_file to_file fs filepath True = (True, fs)"
    using load sync by (simp add: process_footprint_file_def)
  have wet: "process_footprint_file from_file to_file fs filepath False =
       (fst (to_file fs (h', footprint') filepath) = None,
        snd (to_file fs (h', footprint') filepath))"
    using load sync by (simp add: process_footprint_file_def split: prod.splits option.splits)
  have m: "files (main walk from_file to_file github_workspace directory True fs) = fs"
    using process_files_dry[of from_file to_file fs _ 0]
    by (simp add: main_def Let_def split: prod.splits) (metis snd_conv)
  from dry wet m process_files_dry[of from_file to_file fs ps n] show ?thesis
    by simp
qed

theorem dry_run_no_save_witness:
  "main example_walk example_from_file example_to_file None ''.'' True example_fs =
     \<lparr>exit_status = 0, summary = Some (2, 1), files = example_fs\<rparr> \<and>
   process_footprint_file example_from_file example_to_file example_fs ''./good.kicad_mod'' True
     = (True, example_fs) \<and>
   process_footprint_file example_from_file example_to_file example_fs ''./good.kicad_mod'' False
     = (True, example_fs(''./good.kicad_mod'' := Document synced_heap synced_footprint))"
proof -
  have load: "example_from_file example_fs ''./good.kicad_mod'' =
      Inr (example_heap, \<lparr>models = [moved_third_party, part_project]\<rparr>)"
    by (simp add: example_from_file_def example_fs_def)
  have sync: "sync_models example_heap \<lparr>models = [moved_third_party, part_project]\<rparr> =
      (True, synced_heap, synced_footprint)"
    by (simp add: example_update_run synced_heap_def synced_footprint_def)
  note t = dry_run_no_save[where from_file = example_from_file and fs = example_fs
      and filepath = "''./good.kicad_mod''" and to_file = example_to_file, OF load sync]
  from t have "process_footprint_file example_from_file example_to_file example_fs
      ''./good.kicad_mod'' True = (True, example_fs)" by simp
  moreover from t have "process_footprint_file example_from_file example_to_file example_fs
      ''./good.kicad_mod'' False =
      (True, example_fs(''./good.kicad_mod'' := Document synced_heap synced_footprint))"
    by (simp add: example_to_file_def)
  ultimately show ?thesis
    by (simp add: example_main_dry)
qed

subsection \<open>C10: a record with both tokens\<close>

text \<open>
  C10: a record whose path contains both tokens is never bound as the project-local
  record. When it is the only record with a token, the scan binds it as third-party and
  binds no project-local record, so \<^verbatim>\<open>sync_models\<close> takes the create path and appends a
  new project-local record.
\<close>

theorem both_tokens_third_party_only:
  assumes i: "i < length (models footprint)"
    and t3: "contains (path (models footprint ! i)) KICAD_3RD_PARTY"
    and tp: "contains (path (models footprint ! i)) KIPRJMOD"
  shows "snd (find_models (models footprint)) \<noteq> Some i \<and>
     ((\<forall>k < length (models footprint). k \<noteq> i \<longrightarrow>
         \<not> contains (path (models footprint ! k)) KICAD_3RD_PARTY \<and>
         \<not> contains (path (models footprint ! k)) KIPRJMOD) \<longrightarrow>
      find_models (models footprint) = (Some i, None) \<and>
      (\<exists>h' new. sync_models h footprint =
           (True, h', footprint\<lparr>models := models footprint @ [new]\<rparr>) \<and>
         path new = KIPRJMOD @ ''/3d-models/'' @ basename (path (models footprint ! i))))"
proof (intro conjI impI)
  let ?ms = "models footprint"
  show "snd (find_models ?ms) \<noteq> Some i"
    using find_models_project_Some[of ?ms i] t3 by blast
  assume sole: "\<forall>k < length ?ms. k \<noteq> i \<longrightarrow>
         \<not> contains (path (?ms ! k)) KICAD_3RD_PARTY \<and> \<not> contains (path (?ms ! k)) KIPRJMOD"
  from i t3 have "fst (find_models ?ms) \<noteq> None"
    unfolding find_models_third_party_None using nth_mem by blast
  then obtain i' where fi: "fst (find_models ?ms) = Some i'" by auto
  from find_models_third_party_Some[OF fi] sole have "i' = i" by blast
  have "\<forall>m \<in> set ?ms. contains (path m) KICAD_3RD_PARTY \<or> \<not> contains (path m) KIPRJMOD"
  proof
    fix m assume "m \<in> set ?ms"
    then obtain k where k: "k < length ?ms" "?ms ! k = m"
      by (auto simp: in_set_conv_nth)
    with sole t3 show "contains (path m) KICAD_3RD_PARTY \<or> \<not> contains (path m) KIPRJMOD"
      by (cases "k = i") auto
  qed
  then have "snd (find_models ?ms) = None"
    by (simp add: find_models_project_None)
  with fi \<open>i' = i\<close> show fm: "find_models ?ms = (Some i, None)"
    by (simp add: prod_eq_iff)
  obtain h' new where cr: "create_project_model h (?ms ! i) = (h', new)"
    by (cases "create_project_model h (?ms ! i)")
  have "sync_models h footprint = (True, h', footprint\<lparr>models := ?ms @ [new]\<rparr>)"
    by (simp add: sync_models_create[OF fm] cr)
  moreover have "path new = KIPRJMOD @ ''/3d-models/'' @ basename (path (?ms ! i))"
    by (simp add: create_project_model_facts(1)[OF cr] KIPRJMOD_def)
  ultimately show "\<exists>h' new. sync_models h footprint =
           (True, h', footprint\<lparr>models := ?ms @ [new]\<rparr>) \<and>
         path new = KIPRJMOD @ ''/3d-models/'' @ basename (path (?ms ! i))"
    by blast
qed

theorem both_tokens_third_party_only_witness:
  "contains (path both_tokens) KICAD_3RD_PARTY \<and> contains (path both_tokens) KIPRJMOD \<and>
   find_models [both_tokens] = (Some 0, None) \<and>
   fst (sync_models example_heap \<lparr>models = [both_tokens]\<rparr>) \<and>
   map path (models (snd (snd (sync_models example_heap \<lparr>models = [both_tokens]\<rparr>)))) =
     [''${KICAD_3RD_PARTY}/${KIPRJMOD}/part.step'', ''${KIPRJMOD}/3d-models/part.step'']"
proof -
  let ?fp = "\<lparr>models = [both_tokens]\<rparr>"
  have i: "0 < length (models ?fp)" by simp
  have t3: "contains (path (models ?fp ! 0)) KICAD_3RD_PARTY"
    and tp: "contains (path (models ?fp ! 0)) KIPRJMOD"
    by (simp_all add: example_defs)
  have sole: "\<forall>k < length (models ?fp). k \<noteq> 0 \<longrightarrow>
         \<not> contains (path (models ?fp ! k)) KICAD_3RD_PARTY \<and>
         \<not> contains (path (models ?fp ! k)) KIPRJMOD"
    by simp
  from both_tokens_third_party_only[OF i t3 tp, of example_heap] sole
  obtain h' new where fm: "find_models (models ?fp) = (Some 0, None)"
    and run: "sync_models example_heap ?fp = (True, h', ?fp\<lparr>models := models ?fp @ [new]\<rparr>)"
    and p: "path new = KIPRJMOD @ ''/3d-models/'' @ basename (path (models ?fp ! 0))"
    by blast
  have "basename (path both_tokens) = ''part.step''"
    by (simp add: basename_def example_defs)
  with p have "path new = ''${KIPRJMOD}/3d-models/part.step''"
    by (simp add: KIPRJMOD_def)
  with fm run t3 tp show ?thesis
    by (simp add: both_tokens_def)
qed

end
